theory Spec2Isabelle
  imports Complex_Main
begin

section \<open>Phone number validation (server entry file, \<open>validateAndFormatIndianNumber\<close>)\<close>

text \<open>
  The JavaScript function takes any value. Everything that is not a string (and the empty
  string, which is falsy) is answered with \<open>null\<close>; the model's input is therefore
  \<open>string option\<close>, with \<open>None\<close> standing for \<open>null\<close> and for every non-string.
  The result is a string or \<open>null\<close>, so the function can be applied to its own result.
\<close>

definition is_digit :: "char \<Rightarrow> bool" where
  "is_digit c \<longleftrightarrow> c \<in> set ''0123456789''"

text \<open>\<open>phoneNumber.replace(/[^0-9+]/g, '')\<close>\<close>

definition strip_non_phone :: "string \<Rightarrow> string" where
  "strip_non_phone s = filter (\<lambda>c. is_digit c \<or> c = CHR ''+'') s"

definition startsWith :: "string \<Rightarrow> string \<Rightarrow> bool" where
  "startsWith s p \<longleftrightarrow> take (length p) s = p"

text \<open>\<open>/^[6-9]\d{9}$/.test(cleaned)\<close>\<close>

definition indianMobileRegex :: "string \<Rightarrow> bool" where
  "indianMobileRegex s \<longleftrightarrow>
     length s = 10 \<and> hd s \<in> set ''6789'' \<and> list_all is_digit (tl s)"

definition strip_prefix_variant :: "string \<Rightarrow> string" where
  "strip_prefix_variant cleaned =
     (if startsWith cleaned ''+91'' \<and> length cleaned = 13 then drop 3 cleaned
      else if startsWith cleaned ''91'' \<and> length cleaned = 12 then drop 2 cleaned
      else if startsWith cleaned ''0'' \<and> length cleaned = 11 then drop 1 cleaned
      else cleaned)"

definition validateAndFormatIndianNumber :: "string option \<Rightarrow> string option" where
  "validateAndFormatIndianNumber phoneNumber =
     (case phoneNumber of
        None \<Rightarrow> None
      | Some s \<Rightarrow>
          if s = [] then None
          else let cleaned = strip_prefix_variant (strip_non_phone s)
               in if indianMobileRegex cleaned then Some (''+91'' @ cleaned) else None)"


section \<open>JSON values and strings\<close>

text \<open>
  Values exchanged between the HTTP layer, the service and the workers are JSON values.
  An object is an association list in key order. A JavaScript \<open>undefined\<close> (a missing
  property) is \<open>None\<close> of \<open>json option\<close>. Strings are lists of code units below 256.
\<close>

datatype json =
    JNull
  | JBool bool
  | JNum rat
  | JStr string
  | JArr "json list"
  | JObj "(string \<times> json) list"

text \<open>Property read \<open>obj.key\<close> on a non-null value: \<open>undefined\<close> unless an object has the key.\<close>

fun js_prop :: "json \<Rightarrow> string \<Rightarrow> json option" where
  "js_prop (JObj kvs) k = map_of kvs k"
| "js_prop _ k = None"

text \<open>An object literal as \<open>JSON.stringify\<close> writes it: \<open>undefined\<close> properties are dropped.\<close>

fun js_object :: "(string \<times> json option) list \<Rightarrow> (string \<times> json) list" where
  "js_object [] = []"
| "js_object ((k, None) # kvs) = js_object kvs"
| "js_object ((k, Some v) # kvs) = (k, v) # js_object kvs"

text \<open>JavaScript truthiness of a value that came from JSON (arrays and objects are truthy).\<close>

fun js_truthy :: "json option \<Rightarrow> bool" where
  "js_truthy None = False"
| "js_truthy (Some JNull) = False"
| "js_truthy (Some (JBool b)) = b"
| "js_truthy (Some (JNum n)) = (n \<noteq> 0)"
| "js_truthy (Some (JStr s)) = (s \<noteq> [])"
| "js_truthy (Some (JArr xs)) = True"
| "js_truthy (Some (JObj kvs)) = True"

text \<open>Python truthiness of a value read by \<open>json.loads\<close> (empty containers are falsy).\<close>

fun py_truthy :: "json \<Rightarrow> bool" where
  "py_truthy JNull = False"
| "py_truthy (JBool b) = b"
| "py_truthy (JNum n) = (n \<noteq> 0)"
| "py_truthy (JStr s) = (s \<noteq> [])"
| "py_truthy (JArr xs) = (xs \<noteq> [])"
| "py_truthy (JObj kvs) = (kvs \<noteq> [])"

text \<open>\<open>String.prototype.trim\<close>: white space and line terminators among the code units below 256.\<close>

definition is_space :: "char \<Rightarrow> bool" where
  "is_space c \<longleftrightarrow> (of_char c :: nat) \<in> {9, 10, 11, 12, 13, 32, 160}"

definition trim :: "string \<Rightarrow> string" where
  "trim s = rev (dropWhile is_space (rev (dropWhile is_space s)))"

text \<open>
  \<open>String.prototype.toLowerCase\<close>, on the letters A to Z. The results are only compared
  with lower-case ASCII words, which no other code unit below 256 can produce.
\<close>

definition lower_char :: "char \<Rightarrow> char" where
  "lower_char c =
     (case map_of (zip ''ABCDEFGHIJKLMNOPQRSTUVWXYZ'' ''abcdefghijklmnopqrstuvwxyz'') c of
        Some l \<Rightarrow> l
      | None \<Rightarrow> c)"

definition toLowerCase :: "string \<Rightarrow> string" where
  "toLowerCase s = map lower_char s"

text \<open>Template-literal rendering of an exit code: a number in decimal, \<open>null\<close> as the word.\<close>

fun show_nat :: "nat \<Rightarrow> string" where
  "show_nat n =
     (if n < 10 then [''0123456789'' ! n]
      else show_nat (n div 10) @ [''0123456789'' ! (n mod 10)])"

declare show_nat.simps [simp del]

definition show_int :: "int \<Rightarrow> string" where
  "show_int i = (if i < 0 then ''-'' @ show_nat (nat (- i)) else show_nat (nat i))"

definition show_code :: "int option \<Rightarrow> string" where
  "show_code code = (case code of None \<Rightarrow> ''null'' | Some c \<Rightarrow> show_int c)"

definition newline :: string where
  "newline = [CHR 0x0A]"

section \<open>Worker invocation (\<open>AIService.#runPythonInline\<close>, \<open>AIService.extractTextFromFile\<close>)\<close>

text \<open>
  A spawned child process is seen by the service through the events it emits. The service
  registers listeners for data on stdout, data on stderr, and \<open>close\<close> (whose code is a
  number, or \<open>null\<close> when a signal ended the process). Node reports a failed spawn through
  the child's \<open>error\<close> event; neither spawn site registers a listener for it, and an
  \<open>error\<close> event without a listener is thrown by the emitter instead of being followed by
  \<open>close\<close>. \<open>#runPythonInline\<close> also writes the payload to the child's stdin; a failed
  write (EPIPE, when the child has gone before reading a payload larger than the pipe
  buffer) is the \<open>error\<close> event of the stdin stream, for which there is no listener either.
\<close>

datatype event =
    StdoutData string
  | StderrData string
  | Close "int option"
  | ErrorEvent string
  | StdinError string

text \<open>A promise is pending, resolved with a value, or rejected with an \<open>Error\<close>'s message.\<close>

datatype 'a promise = Pending | Resolved 'a | Rejected string

record listener =
  result :: string
  error :: string
  outcome :: "json promise"

definition listener_init :: listener where
  "listener_init = \<lparr>result = [], error = [], outcome = Pending\<rparr>"

text \<open>\<open>resolve\<close> and \<open>reject\<close> have an effect only on a pending promise.\<close>

definition settle :: "json promise \<Rightarrow> json promise \<Rightarrow> json promise" where
  "settle new old = (case old of Pending \<Rightarrow> new | _ \<Rightarrow> old)"

text \<open>
  \<open>JSON.parse\<close> is a parameter: \<open>parse s = None\<close> when it throws. The close handler of
  \<open>#runPythonInline\<close>:
\<close>

definition inline_on_close :: "(string \<Rightarrow> json option) \<Rightarrow> int option \<Rightarrow> listener \<Rightarrow> json promise" where
  "inline_on_close parse code st =
     (if code \<noteq> Some 0
      then Rejected (''Python exited with code '' @ show_code code @ '': '' @
                     (if error st \<noteq> [] then error st else result st))
      else case parse (result st) of
             Some parsed \<Rightarrow> Resolved parsed
           | None \<Rightarrow> Resolved (JObj [(''output'', JStr (trim (result st)))]))"

fun inline_step :: "(string \<Rightarrow> json option) \<Rightarrow> listener \<Rightarrow> event \<Rightarrow> listener" where
  "inline_step parse st (StdoutData d) = st\<lparr>result := result st @ d\<rparr>"
| "inline_step parse st (StderrData d) = st\<lparr>error := error st @ d\<rparr>"
| "inline_step parse st (Close code) =
     st\<lparr>outcome := settle (inline_on_close parse code st) (outcome st)\<rparr>"
| "inline_step parse st (ErrorEvent e) = st"
| "inline_step parse st (StdinError e) = st"

definition runPythonInline :: "(string \<Rightarrow> json option) \<Rightarrow> event list \<Rightarrow> json promise" where
  "runPythonInline parse events = outcome (foldl (inline_step parse) listener_init events)"

text \<open>The close handler of \<open>extractTextFromFile\<close>:\<close>

definition extract_on_close :: "(string \<Rightarrow> json option) \<Rightarrow> int option \<Rightarrow> listener \<Rightarrow> json promise" where
  "extract_on_close parse code st =
     (if code \<noteq> Some 0
      then Rejected (''Python process exited with code '' @ show_code code @ '': '' @ error st)
      else case parse (result st) of
             Some extractedText \<Rightarrow> Resolved extractedText
           | None \<Rightarrow> Resolved (JObj [(''text'', JStr (trim (result st)))]))"

fun extract_step :: "(string \<Rightarrow> json option) \<Rightarrow> listener \<Rightarrow> event \<Rightarrow> listener" where
  "extract_step parse st (StdoutData d) = st\<lparr>result := result st @ d\<rparr>"
| "extract_step parse st (StderrData d) = st\<lparr>error := error st @ d\<rparr>"
| "extract_step parse st (Close code) =
     st\<lparr>outcome := settle (extract_on_close parse code st) (outcome st)\<rparr>"
| "extract_step parse st (ErrorEvent e) = st"
| "extract_step parse st (StdinError e) = st"

text \<open>
  The \<open>switch\<close> on the lower-cased file type throws for an unknown type before anything is
  spawned; the surrounding \<open>catch\<close> wraps that error. The promise of the spawned process is
  returned without \<open>await\<close>, so its rejection is not wrapped.
\<close>

definition supported_file_type :: "string \<Rightarrow> bool" where
  "supported_file_type fileType \<longleftrightarrow>
     toLowerCase fileType \<in> set [''pdf'', ''image'', ''audio'', ''video'']"

definition extractTextFromFile ::
  "(string \<Rightarrow> json option) \<Rightarrow> string \<Rightarrow> event list \<Rightarrow> json promise" where
  "extractTextFromFile parse fileType events =
     (if supported_file_type fileType
      then outcome (foldl (extract_step parse) listener_init events)
      else Rejected (''Text extraction failed: '' @ ''Unsupported file type: '' @ fileType))"

text \<open>\<open>try { return await ... } catch (error) { throw new Error(prefix + error.message) }\<close>\<close>

definition rethrow :: "string \<Rightarrow> 'a promise \<Rightarrow> 'a promise" where
  "rethrow prefix p = (case p of Rejected m \<Rightarrow> Rejected (prefix @ m) | _ \<Rightarrow> p)"

text \<open>The captured output of an event sequence.\<close>

fun stdout_of :: "event list \<Rightarrow> string" where
  "stdout_of [] = []"
| "stdout_of (StdoutData d # es) = d @ stdout_of es"
| "stdout_of (_ # es) = stdout_of es"

fun stderr_of :: "event list \<Rightarrow> string" where
  "stderr_of [] = []"
| "stderr_of (StderrData d # es) = d @ stderr_of es"
| "stderr_of (_ # es) = stderr_of es"

fun is_close :: "event \<Rightarrow> bool" where
  "is_close (Close code) = True"
| "is_close _ = False"

text \<open>
  An \<open>error\<close> event emitted where no listener is registered is thrown as an uncaught
  exception. The server installs no handler for uncaught exceptions, so the Node process
  (the orchestrator) ends there: the events after it are delivered to no listener.
\<close>

fun is_uncaught :: "event \<Rightarrow> bool" where
  "is_uncaught (ErrorEvent e) = True"
| "is_uncaught (StdinError e) = True"
| "is_uncaught _ = False"

definition orchestrator_crashes :: "event list \<Rightarrow> bool" where
  "orchestrator_crashes events \<longleftrightarrow> list_ex is_uncaught events"

definition delivered :: "event list \<Rightarrow> event list" where
  "delivered events = takeWhile (\<lambda>e. \<not> is_uncaught e) events"


section \<open>The inline Python workers\<close>

text \<open>
  Each service method hands \<open>#runPythonInline\<close> a Python program and a payload. The
  payload reaches the program as the JSON value the caller built (\<open>JSON.stringify\<close> then
  \<open>json.loads\<close>). The Python modules the programs import are not part of the service
  file; they are fields of the environment, each returning a value or raising (\<open>Inl\<close> of
  the traceback text), and \<open>imports_ok\<close> tells whether the import lines of the program
  being run succeed. Helpers are taken to write nothing to stdout themselves.
  \<open>stdin_fits\<close> tells whether the serialised payload fits the pipe buffer, so that the
  service's write completes even when the program never reads its stdin.
\<close>

text \<open>
  Modelled from the spec: \<open>classify_cybercrime\<close> lives in the absent Python module
  \<open>classifier\<close>; its result is the spec's ClassificationResult, a priority label out of
  Very Low, Low, Medium, High, Very High, and a numeric score.
\<close>

datatype priority = VeryLow | Low | Medium | High | VeryHigh

fun priority_label :: "priority \<Rightarrow> string" where
  "priority_label VeryLow = ''Very Low''"
| "priority_label Low = ''Low''"
| "priority_label Medium = ''Medium''"
| "priority_label High = ''High''"
| "priority_label VeryHigh = ''Very High''"

definition priority_labels :: "string set" where
  "priority_labels = set [''Very Low'', ''Low'', ''Medium'', ''High'', ''Very High'']"

record py_env =
  dumps :: "json \<Rightarrow> string"
  stdin_fits :: "json \<Rightarrow> bool"
  imports_ok :: bool
  os_path_exists :: "json \<Rightarrow> string + bool"
  extract_text_from_image :: "json \<Rightarrow> string + json"
  extract_text_from_pdf :: "json \<Rightarrow> string + json"
  extract_text_from_audio :: "json \<Rightarrow> string + json"
  extract_details_from_video :: "json \<Rightarrow> string + json"
  contradiction_in_complain_and_evidences :: "json list \<Rightarrow> string + json \<times> json"
  get_incident_details_from_text :: "json list \<Rightarrow> string + json"
  get_narrative_summary :: "json list \<Rightarrow> string + json"
  classify_cybercrime :: "json \<Rightarrow> string + priority \<times> rat"

text \<open>The calls a program makes to the file system and to the imported helpers, in order.\<close>

datatype call =
    PathExists json
  | ExtractImage json
  | ExtractPdf json
  | ExtractAudio json
  | ExtractVideo json
  | Contradiction "json list"
  | IncidentDetails "json list"
  | NarrativeSummary "json list"
  | Classify json

text \<open>A Python computation: it extends the call log and returns a value or raises.\<close>

type_synonym 'a py = "call list \<Rightarrow> (string + 'a) \<times> call list"

definition py_return :: "'a \<Rightarrow> 'a py" where
  "py_return x = (\<lambda>calls. (Inr x, calls))"

definition py_raise :: "string \<Rightarrow> 'a py" where
  "py_raise e = (\<lambda>calls. (Inl e, calls))"

definition py_bind :: "'a py \<Rightarrow> ('a \<Rightarrow> 'b py) \<Rightarrow> 'b py" where
  "py_bind m f = (\<lambda>calls. case m calls of
                            (Inl e, calls') \<Rightarrow> (Inl e, calls')
                          | (Inr x, calls') \<Rightarrow> f x calls')"

definition py_call :: "call \<Rightarrow> (string + 'a) \<Rightarrow> 'a py" where
  "py_call c r = (\<lambda>calls. (r, calls @ [c]))"

text \<open>The \<open>import\<close> lines at the head of a program.\<close>

definition py_imports :: "py_env \<Rightarrow> unit py" where
  "py_imports env = (if imports_ok env then py_return () else py_raise ''ImportError'')"

text \<open>\<open>d.get(key, default)\<close>: a lookup on a dict, an AttributeError on anything else.\<close>

fun py_get :: "json \<Rightarrow> string \<Rightarrow> json \<Rightarrow> json py" where
  "py_get (JObj kvs) k dflt = py_return (case map_of kvs k of Some v \<Rightarrow> v | None \<Rightarrow> dflt)"
| "py_get _ k dflt = py_raise ''AttributeError''"

text \<open>\<open>' '.join(xs)\<close>: defined on a list of strings, a TypeError otherwise.\<close>

fun join_space :: "string list \<Rightarrow> string" where
  "join_space [] = []"
| "join_space [x] = x"
| "join_space (x # xs) = x @ '' '' @ join_space xs"

fun as_strings :: "json list \<Rightarrow> string list option" where
  "as_strings [] = Some []"
| "as_strings (JStr s # xs) = map_option ((#) s) (as_strings xs)"
| "as_strings (_ # xs) = None"

fun py_join_space :: "json \<Rightarrow> json py" where
  "py_join_space (JArr xs) =
     (case as_strings xs of Some ss \<Rightarrow> py_return (JStr (join_space ss)) | None \<Rightarrow> py_raise ''TypeError'')"
| "py_join_space (JStr s) = py_return (JStr (join_space (map (\<lambda>c. [c]) s)))"
| "py_join_space (JObj kvs) = py_return (JStr (join_space (map fst kvs)))"
| "py_join_space _ = py_raise ''TypeError''"

text \<open>What a finished program leaves behind: exit status, stdout, stderr.\<close>

record proc =
  exit_code :: int
  stdout :: string
  stderr :: string

text \<open>
  A program either prints one value with \<open>print(json.dumps(value))\<close> and ends with
  status 0 (also through \<open>exit()\<close>), or dies of an uncaught exception: traceback on
  stderr, status 1.
\<close>

definition py_finish :: "py_env \<Rightarrow> (string + json) \<Rightarrow> proc" where
  "py_finish env r =
     (case r of
        Inr v \<Rightarrow> \<lparr>exit_code = 0, stdout = dumps env v @ newline, stderr = []\<rparr>
      | Inl traceback \<Rightarrow> \<lparr>exit_code = 1, stdout = [], stderr = traceback\<rparr>)"

definition events_of :: "proc \<Rightarrow> event list" where
  "events_of p = [StdoutData (stdout p), StderrData (stderr p), Close (Some (exit_code p))]"

subsection \<open>The four extraction adapters\<close>

text \<open>
  \<open>analyzeAudioFile\<close>, \<open>analyzeVideoFile\<close>, \<open>analyzeImageFile\<close> and \<open>analyzePdfFile\<close>
  run the same program up to the field name, the message and the helper; the video
  program prints the helper's result as it is, the others wrap it in an object.
\<close>

definition not_found_guard :: "py_env \<Rightarrow> json \<Rightarrow> bool py" where
  "not_found_guard env path =
     (if \<not> py_truthy path then py_return True
      else py_bind (py_call (PathExists path) (os_path_exists env path))
             (\<lambda>ex. py_return (\<not> ex)))"

definition analyzeAudioFile_py :: "py_env \<Rightarrow> json \<Rightarrow> json py" where
  "analyzeAudioFile_py env data =
     py_bind (py_imports env) (\<lambda>_.
     py_bind (py_get data ''audio_file_path'' (JStr [])) (\<lambda>audio_file_path.
     py_bind (not_found_guard env audio_file_path) (\<lambda>missing.
       if missing then py_return (JObj [(''error'', JStr ''Audio file not found'')])
       else py_bind (py_call (ExtractAudio audio_file_path)
                       (extract_text_from_audio env audio_file_path))
              (\<lambda>transcribed_text. py_return (JObj [(''transcribed_text'', transcribed_text)])))))"

definition analyzeVideoFile_py :: "py_env \<Rightarrow> json \<Rightarrow> json py" where
  "analyzeVideoFile_py env data =
     py_bind (py_imports env) (\<lambda>_.
     py_bind (py_get data ''video_file_path'' (JStr [])) (\<lambda>video_file_path.
     py_bind (not_found_guard env video_file_path) (\<lambda>missing.
       if missing then py_return (JObj [(''error'', JStr ''Video file not found'')])
       else py_bind (py_call (ExtractVideo video_file_path)
                       (extract_details_from_video env video_file_path))
              (\<lambda>video_details. py_return video_details))))"

definition analyzeImageFile_py :: "py_env \<Rightarrow> json \<Rightarrow> json py" where
  "analyzeImageFile_py env data =
     py_bind (py_imports env) (\<lambda>_.
     py_bind (py_get data ''image_file_path'' (JStr [])) (\<lambda>image_file_path.
     py_bind (not_found_guard env image_file_path) (\<lambda>missing.
       if missing then py_return (JObj [(''error'', JStr ''Image file not found'')])
       else py_bind (py_call (ExtractImage image_file_path)
                       (extract_text_from_image env image_file_path))
              (\<lambda>extracted_text. py_return (JObj [(''extracted_text'', extracted_text)])))))"

definition analyzePdfFile_py :: "py_env \<Rightarrow> json \<Rightarrow> json py" where
  "analyzePdfFile_py env data =
     py_bind (py_imports env) (\<lambda>_.
     py_bind (py_get data ''pdf_file_path'' (JStr [])) (\<lambda>pdf_file_path.
     py_bind (not_found_guard env pdf_file_path) (\<lambda>missing.
       if missing then py_return (JObj [(''error'', JStr ''PDF file not found'')])
       else py_bind (py_call (ExtractPdf pdf_file_path)
                       (extract_text_from_pdf env pdf_file_path))
              (\<lambda>extracted_text. py_return (JObj [(''extracted_text'', extracted_text)])))))"


subsection \<open>The complete-analysis program and the classifier program\<close>

text \<open>
  \<open>classification, score = classify_cybercrime(incident_details) if incident_details
  else ("Unknown", 0)\<close>
\<close>

definition classify_incident :: "py_env \<Rightarrow> json \<Rightarrow> (json \<times> json) py" where
  "classify_incident env incident_details =
     (if py_truthy incident_details
      then py_bind (py_call (Classify incident_details)
                      (classify_cybercrime env incident_details))
             (\<lambda>classified. py_return (JStr (priority_label (fst classified)),
                                        JNum (snd classified)))
      else py_return (JStr ''Unknown'', JNum 0))"

definition completeAnalysis_py :: "py_env \<Rightarrow> json \<Rightarrow> json py" where
  "completeAnalysis_py env data =
     py_bind (py_imports env) (\<lambda>_.
     py_bind (py_get data ''complaint'' (JStr [])) (\<lambda>complaint.
     py_bind (py_get data ''image_path'' JNull) (\<lambda>image_path.
     py_bind (py_get data ''pdf_path'' JNull) (\<lambda>pdf_path.
     py_bind (py_get data ''audio_path'' JNull) (\<lambda>audio_path.
     py_bind (py_get data ''video_path'' JNull) (\<lambda>video_path.
     py_bind (if py_truthy image_path
              then py_call (ExtractImage image_path) (extract_text_from_image env image_path)
              else py_return (JStr [])) (\<lambda>image_text.
     py_bind (if py_truthy pdf_path
              then py_call (ExtractPdf pdf_path) (extract_text_from_pdf env pdf_path)
              else py_return (JStr [])) (\<lambda>pdf_text.
     py_bind (if py_truthy audio_path
              then py_call (ExtractAudio audio_path) (extract_text_from_audio env audio_path)
              else py_return (JStr [])) (\<lambda>audio_text.
     py_bind (if py_truthy video_path
              then py_call (ExtractVideo video_path) (extract_details_from_video env video_path)
              else py_return (JObj [(''transcribed_audio'', JStr []),
                                    (''text_from_frames'', JArr [])])) (\<lambda>video_details.
     py_bind (py_get video_details ''transcribed_audio'' (JStr [])) (\<lambda>text_from_video_audio.
     py_bind (py_get video_details ''text_from_frames'' (JArr [])) (\<lambda>frames.
     py_bind (py_join_space frames) (\<lambda>text_from_video_frames.
     let texts = [complaint, image_text, pdf_text, audio_text,
                  text_from_video_audio, text_from_video_frames]
     in
     py_bind (py_call (Contradiction texts)
                (contradiction_in_complain_and_evidences env texts)) (\<lambda>contradiction.
     py_bind (py_call (IncidentDetails texts)
                (get_incident_details_from_text env texts)) (\<lambda>incident_details.
     py_bind (py_call (NarrativeSummary texts)
                (get_narrative_summary env texts)) (\<lambda>narrative_summary.
     py_bind (classify_incident env incident_details) (\<lambda>classification_score.
     py_return (JObj [(''contradiction_analysis'', fst contradiction),
                      (''has_contradiction'', snd contradiction),
                      (''incident_details'', incident_details),
                      (''narrative_summary'', narrative_summary),
                      (''classification'', fst classification_score),
                      (''priority_score'', snd classification_score)]))))))))))))))))))"

definition classifyContent_py :: "py_env \<Rightarrow> json \<Rightarrow> json py" where
  "classifyContent_py env data =
     py_bind (py_imports env) (\<lambda>_.
     py_bind (py_call (Classify data) (classify_cybercrime env data)) (\<lambda>classified.
     py_return (JObj [(''priority'', JStr (priority_label (fst classified))),
                      (''score'', JNum (snd classified))])))"

subsection \<open>The similarity program\<close>

text \<open>
  An entity record as the similarity program holds it after loading and normalising a
  store: its id and its identifier fields.
\<close>

record entity =
  entity_id :: json
  identifiers :: "(string \<times> string list) list"

text \<open>
  The two record stores as loaded (or the exception raised while loading them), and the
  pair score of the matcher, which the spec leaves open.
\<close>

record db_env =
  stores :: "string + entity list \<times> entity list"
  score :: "entity \<Rightarrow> entity \<Rightarrow> rat"

text \<open>
  Modelled from the spec: \<open>db.within_db_match\<close> and \<open>db.cross_db_match\<close> live in the absent
  Python module \<open>database\<close>. Within-store mode compares every unordered pair within one
  store, excluding self-pairs and duplicate unordered pairs; cross-store mode compares
  every record of store A against every record of store B; both keep the pairs with
  score at least the threshold, as \<open>[id_a, id_b, score]\<close>, sorted by score descending, ties
  in input order.
\<close>

fun unordered_pairs :: "'a list \<Rightarrow> ('a \<times> 'a) list" where
  "unordered_pairs [] = []"
| "unordered_pairs (x # xs) = map (Pair x) xs @ unordered_pairs xs"

definition match_score :: "json \<times> json \<times> rat \<Rightarrow> rat" where
  "match_score m = snd (snd m)"

definition matches_of ::
  "(entity \<Rightarrow> entity \<Rightarrow> rat) \<Rightarrow> rat \<Rightarrow> (entity \<times> entity) list \<Rightarrow> (json \<times> json \<times> rat) list" where
  "matches_of sc threshold pairs =
     sort_key (\<lambda>m. - match_score m)
       (map (\<lambda>(a, b). (entity_id a, entity_id b, sc a b))
          (filter (\<lambda>(a, b). sc a b \<ge> threshold) pairs))"

text \<open>Modelled from the spec: within-store mode, over the unordered pairs of one store.\<close>

definition within_db_match ::
  "(entity \<Rightarrow> entity \<Rightarrow> rat) \<Rightarrow> entity list \<Rightarrow> rat \<Rightarrow> (json \<times> json \<times> rat) list" where
  "within_db_match sc db threshold = matches_of sc threshold (unordered_pairs db)"

text \<open>Modelled from the spec: cross-store mode, every record of A against every record of B.\<close>

definition cross_db_match ::
  "(entity \<Rightarrow> entity \<Rightarrow> rat) \<Rightarrow> entity list \<Rightarrow> entity list \<Rightarrow> rat \<Rightarrow> (json \<times> json \<times> rat) list" where
  "cross_db_match sc db1 db2 threshold = matches_of sc threshold (List.product db1 db2)"

definition matches_json :: "(json \<times> json \<times> rat) list \<Rightarrow> json" where
  "matches_json ms = JArr (map (\<lambda>(a, b, s). JArr [a, b, JNum s]) ms)"

text \<open>A threshold is compared with scores: a number (or a Python bool), a TypeError otherwise.\<close>

fun py_number :: "json \<Rightarrow> rat py" where
  "py_number (JNum n) = py_return n"
| "py_number (JBool b) = py_return (if b then 1 else 0)"
| "py_number _ = py_raise ''TypeError''"

text \<open>
  \<open>thresholds = payload.get('thresholds', {}) if isinstance(payload, dict) else {}\<close>,
  then the two \<open>thresholds.get\<close> with the defaults 0.5 and 0.3.
\<close>

definition similarity_thresholds :: "json \<Rightarrow> (json \<times> json) py" where
  "similarity_thresholds payload =
     py_bind (case payload of JObj kvs \<Rightarrow> py_get payload ''thresholds'' (JObj [])
                            | _ \<Rightarrow> py_return (JObj [])) (\<lambda>thresholds.
     py_bind (py_get thresholds ''cross_threshold'' (JNum (1 / 2))) (\<lambda>cross_th.
     py_bind (py_get thresholds ''within_threshold'' (JNum (3 / 10))) (\<lambda>within_th.
     py_return (cross_th, within_th))))"

definition checkDatabaseSimilarity_py :: "py_env \<Rightarrow> db_env \<Rightarrow> json \<Rightarrow> json py" where
  "checkDatabaseSimilarity_py env db payload =
     py_bind (py_imports env) (\<lambda>_.
     py_bind (case stores db of Inl e \<Rightarrow> py_raise e | Inr dbs \<Rightarrow> py_return dbs) (\<lambda>dbs.
     py_bind (similarity_thresholds payload) (\<lambda>ths.
     py_bind (py_number (fst ths)) (\<lambda>cross_th.
     py_bind (py_number (snd ths)) (\<lambda>within_th.
     py_return (JObj [(''cross_db_matches'',
                         matches_json (cross_db_match (score db) (fst dbs) (snd dbs) cross_th)),
                      (''within_db_matches'',
                         matches_json (within_db_match (score db) (fst dbs) within_th))]))))))"

text \<open>
  An optional evidence path that the programs skip: the key is absent from the payload,
  or its value is falsy (\<open>null\<close>, the empty string).
\<close>

definition path_absent :: "(string \<times> json) list \<Rightarrow> string \<Rightarrow> bool" where
  "path_absent kvs k \<longleftrightarrow> (case map_of kvs k of None \<Rightarrow> True | Some v \<Rightarrow> \<not> py_truthy v)"

definition is_extraction_call :: "call \<Rightarrow> bool" where
  "is_extraction_call c \<longleftrightarrow>
     (case c of PathExists p \<Rightarrow> True | ExtractImage p \<Rightarrow> True | ExtractPdf p \<Rightarrow> True
              | ExtractAudio p \<Rightarrow> True | ExtractVideo p \<Rightarrow> True | _ \<Rightarrow> False)"

section \<open>The service methods and the HTTP handlers\<close>

text \<open>
  What a spawned worker does is a parameter of the service methods: the world maps the
  program and its payload to the events of the child process. \<open>python_world\<close> is the
  world in which the child really runs the program to its end. The listeners of a
  service method see the events delivered before an uncaught exception, if any.
\<close>

datatype script =
    AnalyzeAudio
  | AnalyzeVideo
  | AnalyzeImage
  | AnalyzePdf
  | CompleteAnalysis
  | ClassifyContent
  | CheckDatabaseSimilarity

type_synonym world = "script \<Rightarrow> json \<Rightarrow> event list"

fun run_script :: "py_env \<Rightarrow> db_env \<Rightarrow> script \<Rightarrow> json \<Rightarrow> json py" where
  "run_script env db AnalyzeAudio = analyzeAudioFile_py env"
| "run_script env db AnalyzeVideo = analyzeVideoFile_py env"
| "run_script env db AnalyzeImage = analyzeImageFile_py env"
| "run_script env db AnalyzePdf = analyzePdfFile_py env"
| "run_script env db CompleteAnalysis = completeAnalysis_py env"
| "run_script env db ClassifyContent = classifyContent_py env"
| "run_script env db CheckDatabaseSimilarity = checkDatabaseSimilarity_py env db"

text \<open>
  Every program reads its stdin (\<open>json.loads(sys.stdin.read() or '{}')\<close>) right after its
  import lines; the similarity program loads and normalises the two stores before that.
  A program that raises earlier ends without reading the payload.
\<close>

definition reads_stdin :: "py_env \<Rightarrow> db_env \<Rightarrow> script \<Rightarrow> bool" where
  "reads_stdin env db s \<longleftrightarrow>
     imports_ok env \<and>
     (s \<noteq> CheckDatabaseSimilarity \<or> (case stores db of Inl e \<Rightarrow> False | Inr dbs \<Rightarrow> True))"

definition stdin_events :: "py_env \<Rightarrow> db_env \<Rightarrow> script \<Rightarrow> json \<Rightarrow> event list" where
  "stdin_events env db s payload =
     (if reads_stdin env db s \<or> stdin_fits env payload then [] else [StdinError ''write EPIPE''])"

definition python_world :: "py_env \<Rightarrow> db_env \<Rightarrow> world" where
  "python_world env db s payload =
     stdin_events env db s payload @
     events_of (py_finish env (fst (run_script env db s payload [])))"

definition analyzeAudioFile :: "world \<Rightarrow> (string \<Rightarrow> json option) \<Rightarrow> json \<Rightarrow> json promise" where
  "analyzeAudioFile w parse audioData =
     rethrow ''Audio analysis failed: '' (runPythonInline parse (delivered (w AnalyzeAudio audioData)))"

definition analyzeVideoFile :: "world \<Rightarrow> (string \<Rightarrow> json option) \<Rightarrow> json \<Rightarrow> json promise" where
  "analyzeVideoFile w parse videoData =
     rethrow ''Video analysis failed: '' (runPythonInline parse (delivered (w AnalyzeVideo videoData)))"

definition analyzeImageFile :: "world \<Rightarrow> (string \<Rightarrow> json option) \<Rightarrow> json \<Rightarrow> json promise" where
  "analyzeImageFile w parse imageData =
     rethrow ''Image analysis failed: '' (runPythonInline parse (delivered (w AnalyzeImage imageData)))"

definition analyzePdfFile :: "world \<Rightarrow> (string \<Rightarrow> json option) \<Rightarrow> json \<Rightarrow> json promise" where
  "analyzePdfFile w parse pdfData =
     rethrow ''PDF analysis failed: '' (runPythonInline parse (delivered (w AnalyzePdf pdfData)))"

definition completeAnalysis :: "world \<Rightarrow> (string \<Rightarrow> json option) \<Rightarrow> json \<Rightarrow> json promise" where
  "completeAnalysis w parse complaintData =
     rethrow ''Complete analysis failed: '' (runPythonInline parse (delivered (w CompleteAnalysis complaintData)))"

text \<open>\<open>typeof content === 'string' ? { text: content } : content\<close>\<close>

definition classify_payload :: "json \<Rightarrow> json" where
  "classify_payload content =
     (case content of JStr text \<Rightarrow> JObj [(''text'', content)] | _ \<Rightarrow> content)"

definition classifyContent :: "world \<Rightarrow> (string \<Rightarrow> json option) \<Rightarrow> json \<Rightarrow> json promise" where
  "classifyContent w parse content =
     rethrow ''Content classification failed: ''
       (runPythonInline parse (delivered (w ClassifyContent (classify_payload content))))"

definition checkDatabaseSimilarity :: "world \<Rightarrow> (string \<Rightarrow> json option) \<Rightarrow> json \<Rightarrow> json promise" where
  "checkDatabaseSimilarity w parse entityData =
     rethrow ''Database similarity check failed: ''
       (runPythonInline parse (delivered (w CheckDatabaseSimilarity entityData)))"

text \<open>
  An HTTP response: status and JSON body. A handler that awaits a promise which never
  settles sends no response (\<open>None\<close>); so does a handler whose worker ended the
  orchestrator before its \<open>close\<close> event.
\<close>

datatype response = Response nat json

text \<open>\<open>try { res.status(200).json(await ...) } catch (error) { res.status(500).json({message}) }\<close>\<close>

definition respond :: "json promise \<Rightarrow> response option" where
  "respond p =
     (case p of
        Pending \<Rightarrow> None
      | Resolved v \<Rightarrow> Some (Response 200 v)
      | Rejected m \<Rightarrow> Some (Response 500 (JObj [(''message'', JStr m)])))"

text \<open>POST /api/ai/complete-analysis\<close>

definition complete_analysis_handler ::
  "world \<Rightarrow> (string \<Rightarrow> json option) \<Rightarrow> json \<Rightarrow> response option" where
  "complete_analysis_handler w parse body = respond (completeAnalysis w parse body)"


text \<open>POST /api/ai/check-similarity: the request body is the payload.\<close>

definition check_similarity_handler ::
  "world \<Rightarrow> (string \<Rightarrow> json option) \<Rightarrow> json \<Rightarrow> response option" where
  "check_similarity_handler w parse body =
     (case checkDatabaseSimilarity w parse body of
        Pending \<Rightarrow> None
      | Resolved similarity \<Rightarrow> Some (Response 200 (JObj [(''similarity'', similarity)]))
      | Rejected m \<Rightarrow> Some (Response 500 (JObj [(''message'', JStr m)])))"

text \<open>\<open>a || b\<close>\<close>

definition js_or :: "json option \<Rightarrow> json \<Rightarrow> json" where
  "js_or a b = (case a of Some v \<Rightarrow> if js_truthy a then v else b | None \<Rightarrow> b)"

text \<open>Object spread \<open>{...x}\<close>: own enumerable properties; none for null, undefined, numbers, booleans.\<close>

fun js_spread :: "json option \<Rightarrow> (string \<times> json) list" where
  "js_spread (Some (JObj kvs)) = kvs"
| "js_spread (Some (JArr xs)) = zip (map show_nat [0..<length xs]) xs"
| "js_spread (Some (JStr s)) = zip (map show_nat [0..<length s]) (map (\<lambda>c. JStr [c]) s)"
| "js_spread _ = []"

text \<open>Setting a property: an existing key keeps its place, a new key goes last.\<close>

fun obj_set :: "(string \<times> json) list \<Rightarrow> string \<Rightarrow> json \<Rightarrow> (string \<times> json) list" where
  "obj_set [] k v = [(k, v)]"
| "obj_set ((k', v') # kvs) k v =
     (if k' = k then (k, v) # kvs else (k', v') # obj_set kvs k v)"

text \<open>
  The engine's messages for destructuring \<open>null\<close> and for calling \<open>toLowerCase\<close> on a
  value that has no such method.
\<close>

definition quoted :: "string \<Rightarrow> string" where
  "quoted s = [CHR 0x27] @ s @ [CHR 0x27]"

definition destructure_message :: "string \<Rightarrow> string \<Rightarrow> string" where
  "destructure_message prop src =
     ''Cannot destructure property '' @ quoted prop @ '' of '' @ quoted src @
     '' as it is null.''"

fun toLowerCase_message :: "json option \<Rightarrow> string" where
  "toLowerCase_message None = ''Cannot read properties of undefined (reading 'toLowerCase')''"
| "toLowerCase_message (Some JNull) = ''Cannot read properties of null (reading 'toLowerCase')''"
| "toLowerCase_message _ = ''file_type.toLowerCase is not a function''"

text \<open>POST /api/ai/check-similarity-advanced\<close>

definition check_similarity_advanced_payload :: "json \<Rightarrow> json" where
  "check_similarity_advanced_payload body =
     (let cross_threshold = js_prop body ''cross_threshold'';
          within_threshold = js_prop body ''within_threshold'';
          entity_data = js_prop body ''entity_data'';
          thresholds = JObj [(''cross_threshold'', js_or cross_threshold (JNum (1 / 2))),
                             (''within_threshold'', js_or within_threshold (JNum (3 / 10)))]
      in JObj (obj_set (js_spread entity_data) ''thresholds'' thresholds))"

definition check_similarity_advanced_handler ::
  "world \<Rightarrow> (string \<Rightarrow> json option) \<Rightarrow> json \<Rightarrow> response option" where
  "check_similarity_advanced_handler w parse body =
     (if body = JNull
      then respond (Rejected (destructure_message ''cross_threshold'' ''req.body''))
      else respond (checkDatabaseSimilarity w parse (check_similarity_advanced_payload body)))"

text \<open>
  POST /api/ai/analyze-batch. The \<open>switch\<close> on the lower-cased file type either calls one
  of the four adapters with a payload, or yields the "unsupported" object, or throws when
  \<open>file_type\<close> has no \<open>toLowerCase\<close>.
\<close>

datatype switch_result = CallAdapter script json | Value json | Throw string

definition batch_switch :: "json option \<Rightarrow> json option \<Rightarrow> switch_result" where
  "batch_switch file_path file_type =
     (case file_type of
        Some (JStr t) \<Rightarrow>
          (let lowered = toLowerCase t
           in if lowered = ''audio''
              then CallAdapter AnalyzeAudio (JObj (js_object [(''audio_file_path'', file_path)]))
              else if lowered = ''video''
              then CallAdapter AnalyzeVideo (JObj (js_object [(''video_file_path'', file_path)]))
              else if lowered = ''image''
              then CallAdapter AnalyzeImage (JObj (js_object [(''image_file_path'', file_path)]))
              else if lowered = ''pdf''
              then CallAdapter AnalyzePdf (JObj (js_object [(''pdf_file_path'', file_path)]))
              else Value (JObj [(''error'', JStr (''Unsupported file type: '' @ t))]))
      | _ \<Rightarrow> Throw (toLowerCase_message file_type))"

text \<open>The service method that runs a program.\<close>

fun service_method ::
  "script \<Rightarrow> world \<Rightarrow> (string \<Rightarrow> json option) \<Rightarrow> json \<Rightarrow> json promise" where
  "service_method AnalyzeAudio = analyzeAudioFile"
| "service_method AnalyzeVideo = analyzeVideoFile"
| "service_method AnalyzeImage = analyzeImageFile"
| "service_method AnalyzePdf = analyzePdfFile"
| "service_method CompleteAnalysis = completeAnalysis"
| "service_method ClassifyContent = classifyContent"
| "service_method CheckDatabaseSimilarity = checkDatabaseSimilarity"

definition batch_item ::
  "world \<Rightarrow> (string \<Rightarrow> json option) \<Rightarrow> json option \<Rightarrow> json option \<Rightarrow> json promise" where
  "batch_item w parse file_path file_type =
     (case batch_switch file_path file_type of
        CallAdapter s payload \<Rightarrow> service_method s w parse payload
      | Value v \<Rightarrow> Resolved v
      | Throw m \<Rightarrow> Rejected m)"

text \<open>
  The body of the loop for one (non-null) file: the entry pushed to \<open>results\<close>, or \<open>None\<close>
  when the awaited analysis never settles.
\<close>

definition batch_entry :: "world \<Rightarrow> (string \<Rightarrow> json option) \<Rightarrow> json \<Rightarrow> json option" where
  "batch_entry w parse file =
     (let file_path = js_prop file ''file_path'';
          file_type = js_prop file ''file_type''
      in case batch_item w parse file_path file_type of
           Pending \<Rightarrow> None
         | Resolved r \<Rightarrow>
             Some (JObj (js_object [(''file_path'', file_path), (''file_type'', file_type),
                                    (''result'', Some r)]))
         | Rejected m \<Rightarrow>
             Some (JObj (js_object [(''file_path'', file_path), (''file_type'', file_type),
                                    (''error'', Some (JStr m))])))"

text \<open>
  What the handler does with workers, in the order it does it: a worker is started for a
  file, and the loop goes on when the awaited promise has settled.
\<close>

datatype batch_action = Started script json | Settled

definition file_started :: "json \<Rightarrow> batch_action list" where
  "file_started file =
     (case batch_switch (js_prop file ''file_path'') (js_prop file ''file_type'') of
        CallAdapter s payload \<Rightarrow> [Started s payload]
      | _ \<Rightarrow> [])"

definition file_actions :: "json \<Rightarrow> batch_action list" where
  "file_actions file = file_started file @ map (\<lambda>a. Settled) (file_started file)"

text \<open>
  The \<open>for\<close> loop, with the results so far and the actions so far. The destructuring of
  \<open>file\<close> stands outside the inner \<open>try\<close>: on a \<open>null\<close> element it throws to the handler's
  outer \<open>catch\<close>. An awaited analysis that never settles stops the loop there.
\<close>

fun batch_loop ::
  "world \<Rightarrow> (string \<Rightarrow> json option) \<Rightarrow> json list \<Rightarrow> json list \<Rightarrow> batch_action list \<Rightarrow>
     json list promise \<times> batch_action list" where
  "batch_loop w parse [] results actions = (Resolved results, actions)"
| "batch_loop w parse (file # files) results actions =
     (if file = JNull then (Rejected (destructure_message ''file_path'' ''file''), actions)
      else case batch_entry w parse file of
             None \<Rightarrow> (Pending, actions @ file_started file)
           | Some entry \<Rightarrow>
               batch_loop w parse files (results @ [entry]) (actions @ file_actions file))"

definition analyze_batch_handler ::
  "world \<Rightarrow> (string \<Rightarrow> json option) \<Rightarrow> json \<Rightarrow> response option" where
  "analyze_batch_handler w parse body =
     (if body = JNull
      then respond (Rejected (destructure_message ''files'' ''req.body''))
      else case js_prop body ''files'' of
             Some (JArr files) \<Rightarrow>
               if files = []
               then Some (Response 400 (JObj [(''message'', JStr ''files array is required'')]))
               else (case fst (batch_loop w parse files [] []) of
                       Pending \<Rightarrow> None
                     | Resolved results \<Rightarrow> Some (Response 200 (JObj [(''results'', JArr results)]))
                     | Rejected m \<Rightarrow> Some (Response 500 (JObj [(''message'', JStr m)])))
           | _ \<Rightarrow> Some (Response 400 (JObj [(''message'', JStr ''files array is required'')])))"

text \<open>The actions of a batch request, and whether one of its workers ends the orchestrator.\<close>

definition analyze_batch_actions ::
  "world \<Rightarrow> (string \<Rightarrow> json option) \<Rightarrow> json \<Rightarrow> batch_action list" where
  "analyze_batch_actions w parse body =
     (case js_prop body ''files'' of
        Some (JArr files) \<Rightarrow> snd (batch_loop w parse files [] [])
      | _ \<Rightarrow> [])"

fun action_crashes :: "world \<Rightarrow> batch_action \<Rightarrow> bool" where
  "action_crashes w (Started s payload) = orchestrator_crashes (w s payload)"
| "action_crashes w Settled = False"

definition analyze_batch_crashes ::
  "world \<Rightarrow> (string \<Rightarrow> json option) \<Rightarrow> json \<Rightarrow> bool" where
  "analyze_batch_crashes w parse body \<longleftrightarrow>
     list_ex (action_crashes w) (analyze_batch_actions w parse body)"

section \<open>Concrete environments for evaluation\<close>

text \<open>
  A finite excerpt of the JSON library: the listed values with their texts. \<open>json.dumps\<close>
  writes the text of a listed value; \<open>JSON.parse\<close> reads a listed text, surrounding white
  space ignored, and throws on every other text.
\<close>

definition dumps_excerpt :: "(json \<times> string) list \<Rightarrow> json \<Rightarrow> string" where
  "dumps_excerpt t v = (case map_of t v of Some s \<Rightarrow> s | None \<Rightarrow> [])"

definition parse_excerpt :: "(json \<times> string) list \<Rightarrow> string \<Rightarrow> json option" where
  "parse_excerpt t s = map_of (map (\<lambda>(v, s). (s, v)) t) (trim s)"


text \<open>
  The worker's single printed line is read back by the service as the value that was
  printed: the assumption on the JSON library under which a worker's value reaches the
  caller.
\<close>

definition roundtrips :: "(string \<Rightarrow> json option) \<Rightarrow> py_env \<Rightarrow> json \<Rightarrow> bool" where
  "roundtrips parse env v \<longleftrightarrow> parse (dumps env v @ newline) = Some v"

text \<open>
  An environment in which the imports succeed, the listed files exist, every extractor
  returns a fixed text, and the analysis helpers return fixed values; the incident
  details are a parameter.
\<close>

definition example_env :: "(json \<times> string) list \<Rightarrow> string list \<Rightarrow> json \<Rightarrow> py_env" where
  "example_env table files details =
     \<lparr>dumps = dumps_excerpt table,
      stdin_fits = (\<lambda>payload. True),
      imports_ok = True,
      os_path_exists = (\<lambda>p. case p of JStr s \<Rightarrow> Inr (s \<in> set files) | _ \<Rightarrow> Inl ''TypeError''),
      extract_text_from_image = (\<lambda>p. Inr (JStr ''image text'')),
      extract_text_from_pdf = (\<lambda>p. Inr (JStr ''pdf text'')),
      extract_text_from_audio = (\<lambda>p. Inr (JStr ''audio text'')),
      extract_details_from_video =
        (\<lambda>p. Inr (JObj [(''transcribed_audio'', JStr ''video audio''),
                         (''text_from_frames'', JArr [JStr ''frame'']) ])),
      contradiction_in_complain_and_evidences = (\<lambda>texts. Inr (JStr ''consistent'', JBool False)),
      get_incident_details_from_text = (\<lambda>texts. Inr details),
      get_narrative_summary = (\<lambda>texts. Inr (JStr ''summary'')),
      classify_cybercrime = (\<lambda>d. Inr (High, 7))\<rparr>"

text \<open>
  A pair score for evaluation: 1 when the two records share an identifier value in some
  field, 0 otherwise; and a store of three records of which the first two share a bank
  account.
\<close>

definition shares_identifier :: "entity \<Rightarrow> entity \<Rightarrow> rat" where
  "shares_identifier a b =
     (if list_ex (\<lambda>(field, values).
            list_ex (\<lambda>v. v \<in> set (case map_of (identifiers b) field of
                                      Some ws \<Rightarrow> ws | None \<Rightarrow> [])) values)
          (identifiers a)
      then 1 else 0)"

definition three_records :: "entity list" where
  "three_records =
     [\<lparr>entity_id = JNum 1, identifiers = [(''bank_accounts'', [''1234567890''])]\<rparr>,
      \<lparr>entity_id = JNum 2, identifiers = [(''bank_accounts'', [''1234567890'']),
                                           (''phones'', [''+919876543210''])]\<rparr>,
      \<lparr>entity_id = JNum 3, identifiers = [(''emails'', [''a@example.org''])]\<rparr>]"


text \<open>
  An environment whose import lines fail and whose payloads exceed the pipe buffer: the
  program ends before it reads its stdin, and the service's write fails.
\<close>

definition broken_env :: py_env where
  "broken_env = (example_env [] [] JNull)\<lparr>stdin_fits := (\<lambda>payload. False), imports_ok := False\<rparr>"

text \<open>A world in which a started worker hangs: it emits no event at all.\<close>

definition silent_world :: world where
  "silent_world s payload = []"

definition example_db :: db_env where
  "example_db = \<lparr>stores = Inr (three_records, []), score = shares_identifier\<rparr>"

text \<open>
  A batch request: a missing audio file, an unsupported type, an entry without a type, a
  missing PDF file.
\<close>

definition batch_files :: "json list" where
  "batch_files =
     [JObj [(''file_path'', JStr ''/tmp/missing.wav''), (''file_type'', JStr ''Audio'')],
      JObj [(''file_path'', JStr ''/tmp/notes.docx''), (''file_type'', JStr ''docx'')],
      JObj [(''file_path'', JStr ''/tmp/scan.png'')],
      JObj [(''file_path'', JStr ''/tmp/missing.pdf''), (''file_type'', JStr ''pdf'')]]"

text \<open>Excerpts of the JSON library: the adapters' "not found" objects.\<close>

definition not_found_table :: "(json \<times> string) list" where
  "not_found_table =
     [(JObj [(''error'', JStr ''Audio file not found'')], ''{\"error\": \"Audio file not found\"}''),
      (JObj [(''error'', JStr ''Video file not found'')], ''{\"error\": \"Video file not found\"}''),
      (JObj [(''error'', JStr ''Image file not found'')], ''{\"error\": \"Image file not found\"}''),
      (JObj [(''error'', JStr ''PDF file not found'')], ''{\"error\": \"PDF file not found\"}'')]"

text \<open>
  The complete-analysis results of \<open>example_env\<close>, for incident details \<open>{"crime_type":
  "phishing"}\<close> and for empty incident details.
\<close>

definition analysis_of :: "json \<Rightarrow> string \<Rightarrow> rat \<Rightarrow> json" where
  "analysis_of details classification sc =
     JObj [(''contradiction_analysis'', JStr ''consistent''),
           (''has_contradiction'', JBool False),
           (''incident_details'', details),
           (''narrative_summary'', JStr ''summary''),
           (''classification'', JStr classification),
           (''priority_score'', JNum sc)]"

definition analysis_table :: "(json \<times> string) list" where
  "analysis_table =
     [(analysis_of (JObj [(''crime_type'', JStr ''phishing'')]) ''High'' 7,
       ''{\"contradiction_analysis\": \"consistent\", \"has_contradiction\": false, \"incident_details\": {\"crime_type\": \"phishing\"}, \"narrative_summary\": \"summary\", \"classification\": \"High\", \"priority_score\": 7}''),
      (analysis_of (JObj []) ''Unknown'' 0,
       ''{\"contradiction_analysis\": \"consistent\", \"has_contradiction\": false, \"incident_details\": {}, \"narrative_summary\": \"summary\", \"classification\": \"Unknown\", \"priority_score\": 0}'')]"

text \<open>The classifier's result of \<open>example_env\<close>.\<close>

definition classify_table :: "(json \<times> string) list" where
  "classify_table =
     [(JObj [(''priority'', JStr ''High''), (''score'', JNum 7)],
       ''{\"priority\": \"High\", \"score\": 7}'')]"

section \<open>Phone number normalisation\<close>

lemma is_digit_simps:
  "is_digit CHR ''0''" "is_digit CHR ''1''" "is_digit CHR ''6''" "is_digit CHR ''7''"
  "is_digit CHR ''8''" "is_digit CHR ''9''" "\<not> is_digit CHR ''+''"
  by (simp_all add: is_digit_def)

lemma strip_non_phone_append:
  "strip_non_phone (a @ b) = strip_non_phone a @ strip_non_phone b"
  by (simp add: strip_non_phone_def)

lemma strip_non_phone_digits: "list_all is_digit d \<Longrightarrow> strip_non_phone d = d"
  by (simp add: strip_non_phone_def list_all_iff)

lemma strip_non_phone_prefixes:
  "strip_non_phone ''+91'' = ''+91''" "strip_non_phone ''91'' = ''91''" "strip_non_phone ''0'' = ''0''"
  by (simp_all add: strip_non_phone_def is_digit_simps)

lemma six_to_nine_digit: "c \<in> set ''6789'' \<Longrightarrow> is_digit c"
  using is_digit_simps by auto

lemma indianMobileRegex_digits:
  assumes "indianMobileRegex d" shows "list_all is_digit d"
proof -
  from assms have "length d = 10" "hd d \<in> set ''6789''" "list_all is_digit (tl d)"
    by (simp_all add: indianMobileRegex_def)
  then show ?thesis
    by (cases d) (simp_all add: six_to_nine_digit del: set_simps)
qed

lemma strip_prefix_variant_simps:
  assumes "length d = 10" "list_all is_digit d"
  shows "strip_prefix_variant (''+91'' @ d) = d"
    and "strip_prefix_variant (''91'' @ d) = d"
    and "strip_prefix_variant (''0'' @ d) = d"
    and "strip_prefix_variant d = d"
  using assms by (simp_all add: strip_prefix_variant_def startsWith_def)

lemma validate_digits:
  assumes len: "length d = 10" and dig: "list_all is_digit d"
  shows "validateAndFormatIndianNumber (Some d) =
           (if indianMobileRegex d then Some (''+91'' @ d) else None)"
proof -
  have "d \<noteq> []" using len by auto
  then show ?thesis
    using strip_non_phone_digits[OF dig] strip_prefix_variant_simps(4)[OF len dig]
    by (simp add: validateAndFormatIndianNumber_def)
qed

lemma validate_variants:
  assumes len: "length d = 10" and dig: "list_all is_digit d"
  shows "validateAndFormatIndianNumber (Some (''+91'' @ d)) = validateAndFormatIndianNumber (Some d)"
    and "validateAndFormatIndianNumber (Some (''91'' @ d)) = validateAndFormatIndianNumber (Some d)"
    and "validateAndFormatIndianNumber (Some (''0'' @ d)) = validateAndFormatIndianNumber (Some d)"
proof -
  note sp = strip_non_phone_append strip_non_phone_prefixes strip_non_phone_digits[OF dig]
  note pv = strip_prefix_variant_simps[OF len dig]
  have r: "validateAndFormatIndianNumber (Some d) =
           (if indianMobileRegex d then Some (''+91'' @ d) else None)"
    using len dig by (rule validate_digits)
  have a: "strip_prefix_variant (strip_non_phone (''+91'' @ d)) = d"
    unfolding sp by (rule pv(1))
  have b: "strip_prefix_variant (strip_non_phone (''91'' @ d)) = d"
    unfolding sp by (rule pv(2))
  have c: "strip_prefix_variant (strip_non_phone (''0'' @ d)) = d"
    unfolding sp by (rule pv(3))
  show "validateAndFormatIndianNumber (Some (''+91'' @ d)) = validateAndFormatIndianNumber (Some d)"
    unfolding r by (simp add: validateAndFormatIndianNumber_def a del: append.simps)
  show "validateAndFormatIndianNumber (Some (''91'' @ d)) = validateAndFormatIndianNumber (Some d)"
    unfolding r by (simp add: validateAndFormatIndianNumber_def b del: append.simps)
  show "validateAndFormatIndianNumber (Some (''0'' @ d)) = validateAndFormatIndianNumber (Some d)"
    unfolding r by (simp add: validateAndFormatIndianNumber_def c del: append.simps)
qed

lemma validate_canonical:
  assumes "indianMobileRegex d"
  shows "validateAndFormatIndianNumber (Some (''+91'' @ d)) = Some (''+91'' @ d)"
proof -
  have len: "length d = 10" using assms by (simp add: indianMobileRegex_def)
  have dig: "list_all is_digit d" using assms by (rule indianMobileRegex_digits)
  show ?thesis
    unfolding validate_variants(1)[OF len dig] validate_digits[OF len dig]
    using assms by simp
qed

lemma validate_Some_shape:
  assumes "validateAndFormatIndianNumber x = Some t"
  shows "\<exists>d. t = ''+91'' @ d \<and> indianMobileRegex d"
proof (cases x)
  case None
  with assms show ?thesis by (simp add: validateAndFormatIndianNumber_def)
next
  case (Some s)
  let ?c = "strip_prefix_variant (strip_non_phone s)"
  from assms Some have "indianMobileRegex ?c \<and> t = ''+91'' @ ?c"
    by (simp add: validateAndFormatIndianNumber_def Let_def split: if_splits del: append.simps)
  then show ?thesis by blast
qed

lemma validate_idem:
  "validateAndFormatIndianNumber (validateAndFormatIndianNumber x) = validateAndFormatIndianNumber x"
proof (cases "validateAndFormatIndianNumber x")
  case None
  then show ?thesis by (simp add: validateAndFormatIndianNumber_def)
next
  case (Some t)
  then obtain d where "t = ''+91'' @ d" "indianMobileRegex d"
    using validate_Some_shape by blast
  with Some show ?thesis using validate_canonical by simp
qed


text \<open>
  Claim C7. Phone normalisation is idempotent: applying \<open>validateAndFormatIndianNumber\<close>
  to its own result changes nothing, for every input. For every 10-digit number the
  forms with a leading \<open>+91\<close>, \<open>91\<close> or \<open>0\<close> are normalised to the same value as the bare
  number, and the two representations "+91 98765-43210" and "09876543210" both become
  the canonical string "+919876543210".
\<close>

theorem phone_normalization_idempotent_canonical:
  "validateAndFormatIndianNumber (validateAndFormatIndianNumber x) =
     validateAndFormatIndianNumber x \<and>
   (length d = 10 \<and> list_all is_digit d \<longrightarrow>
      validateAndFormatIndianNumber (Some (''+91'' @ d)) = validateAndFormatIndianNumber (Some d) \<and>
      validateAndFormatIndianNumber (Some (''91'' @ d)) = validateAndFormatIndianNumber (Some d) \<and>
      validateAndFormatIndianNumber (Some (''0'' @ d)) = validateAndFormatIndianNumber (Some d)) \<and>
   validateAndFormatIndianNumber (Some ''+91 98765-43210'') = Some ''+919876543210'' \<and>
   validateAndFormatIndianNumber (Some ''09876543210'') = Some ''+919876543210''"
proof -
  note idem = validate_idem [of x]
  have scenario:
    "validateAndFormatIndianNumber (Some ''+91 98765-43210'') = Some ''+919876543210''"
    "validateAndFormatIndianNumber (Some ''09876543210'') = Some ''+919876543210''"
    by (simp_all add: validateAndFormatIndianNumber_def strip_non_phone_def is_digit_def
        strip_prefix_variant_def startsWith_def indianMobileRegex_def)
  show ?thesis
    using idem scenario validate_variants [of d] by blast
qed

theorem phone_normalization_idempotent_canonical_witness:
  "length ''9876543210'' = 10 \<and> list_all is_digit ''9876543210'' \<and>
   validateAndFormatIndianNumber (Some ''+919876543210'') =
     validateAndFormatIndianNumber (Some ''9876543210'') \<and>
   validateAndFormatIndianNumber (Some ''919876543210'') =
     validateAndFormatIndianNumber (Some ''9876543210'') \<and>
   validateAndFormatIndianNumber (Some ''09876543210'') =
     validateAndFormatIndianNumber (Some ''9876543210'') \<and>
   validateAndFormatIndianNumber (validateAndFormatIndianNumber (Some ''98765 43210'')) =
     validateAndFormatIndianNumber (Some ''98765 43210'')"
  using phone_normalization_idempotent_canonical [of "Some ''98765 43210''" "''9876543210''"]
  by (simp add: is_digit_def)

section \<open>Worker invocation\<close>

lemma inline_fold_no_close:
  "\<not> list_ex is_close es \<Longrightarrow>
   foldl (inline_step parse) st es =
     st\<lparr>result := result st @ stdout_of es, error := error st @ stderr_of es\<rparr>"
proof (induction es arbitrary: st)
  case Nil
  then show ?case by simp
next
  case (Cons e es)
  then show ?case by (cases e) simp_all
qed

lemma extract_fold_no_close:
  "\<not> list_ex is_close es \<Longrightarrow>
   foldl (extract_step parse) st es =
     st\<lparr>result := result st @ stdout_of es, error := error st @ stderr_of es\<rparr>"
proof (induction es arbitrary: st)
  case Nil
  then show ?case by simp
next
  case (Cons e es)
  then show ?case by (cases e) simp_all
qed

lemma runPythonInline_closed:
  assumes "\<not> list_ex is_close es"
  shows "runPythonInline parse (es @ [Close code]) =
           inline_on_close parse code \<lparr>result = stdout_of es, error = stderr_of es, outcome = Pending\<rparr>"
  using assms
  by (simp add: runPythonInline_def inline_fold_no_close listener_init_def settle_def
      inline_on_close_def)

lemma extractTextFromFile_closed:
  assumes "supported_file_type fileType" and "\<not> list_ex is_close es"
  shows "extractTextFromFile parse fileType (es @ [Close code]) =
           extract_on_close parse code \<lparr>result = stdout_of es, error = stderr_of es, outcome = Pending\<rparr>"
  using assms
  by (simp add: extractTextFromFile_def extract_fold_no_close listener_init_def settle_def
      extract_on_close_def)

lemma inline_on_close_settled: "inline_on_close parse code st \<noteq> Pending"
  by (simp add: inline_on_close_def split: option.splits)

lemma extract_on_close_settled: "extract_on_close parse code st \<noteq> Pending"
  by (simp add: extract_on_close_def split: option.splits)

lemma settle_Pending_iff: "settle new old = Pending \<longleftrightarrow> new = Pending \<and> old = Pending"
  by (cases old) (simp_all add: settle_def)

lemma inline_fold_pending:
  "outcome (foldl (inline_step parse) st es) = Pending \<longleftrightarrow>
     outcome st = Pending \<and> \<not> list_ex is_close es"
proof (induction es arbitrary: st)
  case Nil
  then show ?case by simp
next
  case (Cons e es)
  then show ?case
    by (cases e) (simp_all add: settle_Pending_iff inline_on_close_settled)
qed

lemma extract_fold_pending:
  "outcome (foldl (extract_step parse) st es) = Pending \<longleftrightarrow>
     outcome st = Pending \<and> \<not> list_ex is_close es"
proof (induction es arbitrary: st)
  case Nil
  then show ?case by simp
next
  case (Cons e es)
  then show ?case
    by (cases e) (simp_all add: settle_Pending_iff extract_on_close_settled)
qed

lemma runPythonInline_pending_iff:
  "runPythonInline parse es = Pending \<longleftrightarrow> \<not> list_ex is_close es"
  by (simp add: runPythonInline_def inline_fold_pending listener_init_def)

lemma rethrow_simps:
  "rethrow prefix Pending = Pending"
  "rethrow prefix (Resolved v) = Resolved v"
  "rethrow prefix (Rejected m) = Rejected (prefix @ m)"
  by (simp_all add: rethrow_def)

lemma respond_simps:
  "respond Pending = None"
  "respond (Resolved v) = Some (Response 200 v)"
  "respond (Rejected m) = Some (Response 500 (JObj [(''message'', JStr m)]))"
  by (simp_all add: respond_def)


lemma show_137: "show_int 137 = ''137''"
  by (simp add: show_int_def show_nat.simps)

lemma supported_pdf: "supported_file_type ''pdf''" "\<not> supported_file_type ''docx''"
  by (simp_all add: supported_file_type_def toLowerCase_def lower_char_def)

text \<open>
  Claim C1, as the code has it. A worker whose events end in \<open>close\<close> with status 0: when
  the whole captured stdout parses as JSON, the parsed value is the result, unchanged,
  on every path (the service methods' \<open>catch\<close> wrappers leave a resolved value alone).
  When it does not parse, \<open>#runPythonInline\<close> resolves to the object with the single key
  \<open>output\<close> holding the trimmed stdout, while \<open>extractTextFromFile\<close> resolves to the
  object with the single key \<open>text\<close> holding the trimmed stdout.
\<close>

theorem worker_success_result_by_path:
  "\<not> list_ex is_close es \<longrightarrow>
     runPythonInline parse (es @ [Close (Some 0)]) =
       Resolved (case parse (stdout_of es) of
                   Some parsed \<Rightarrow> parsed
                 | None \<Rightarrow> JObj [(''output'', JStr (trim (stdout_of es)))]) \<and>
     rethrow prefix (runPythonInline parse (es @ [Close (Some 0)])) =
       runPythonInline parse (es @ [Close (Some 0)]) \<and>
     (supported_file_type fileType \<longrightarrow>
        extractTextFromFile parse fileType (es @ [Close (Some 0)]) =
          Resolved (case parse (stdout_of es) of
                      Some extractedText \<Rightarrow> extractedText
                    | None \<Rightarrow> JObj [(''text'', JStr (trim (stdout_of es)))]))"
  by (simp add: runPythonInline_closed extractTextFromFile_closed
      inline_on_close_def extract_on_close_def rethrow_simps split: option.splits)

theorem worker_success_result_by_path_witness:
  "\<not> list_ex is_close [StdoutData ''plain '', StdoutData (''text'' @ newline)] \<and>
   supported_file_type ''pdf'' \<and>
   runPythonInline (parse_excerpt []) [StdoutData ''plain '', StdoutData (''text'' @ newline), Close (Some 0)] =
     Resolved (JObj [(''output'', JStr ''plain text'')]) \<and>
   extractTextFromFile (parse_excerpt []) ''pdf''
       [StdoutData ''plain '', StdoutData (''text'' @ newline), Close (Some 0)] =
     Resolved (JObj [(''text'', JStr ''plain text'')]) \<and>
   runPythonInline (parse_excerpt [(JObj [(''extracted_text'', JStr ''hi'')], ''{\"extracted_text\": \"hi\"}'')])
       [StdoutData (''{\"extracted_text\": \"hi\"}'' @ newline), Close (Some 0)] =
     Resolved (JObj [(''extracted_text'', JStr ''hi'')])"
  using worker_success_result_by_path
          [of "[StdoutData ''plain '', StdoutData (''text'' @ newline)]" "parse_excerpt []" "[]" "''pdf''"]
        worker_success_result_by_path
          [of "[StdoutData (''{\"extracted_text\": \"hi\"}'' @ newline)]"
              "parse_excerpt [(JObj [(''extracted_text'', JStr ''hi'')], ''{\"extracted_text\": \"hi\"}'')]"
              "[]" "''pdf''"]
  by (simp add: supported_pdf parse_excerpt_def trim_def is_space_def newline_def)

text \<open>
  Claim C1 as stated fails on \<open>extractTextFromFile\<close>: with stdout "plain text" (not JSON)
  and status 0 the result is the object keyed \<open>text\<close>, not the object keyed \<open>output\<close>.
\<close>

theorem extractTextFromFile_degraded_key_counterexample:
  "parse_excerpt [] (''plain text'' @ newline) = None \<and>
   extractTextFromFile (parse_excerpt []) ''pdf'' [StdoutData (''plain text'' @ newline), Close (Some 0)] =
     Resolved (JObj [(''text'', JStr ''plain text'')]) \<and>
   extractTextFromFile (parse_excerpt []) ''pdf'' [StdoutData (''plain text'' @ newline), Close (Some 0)] \<noteq>
     Resolved (JObj [(''output'', JStr ''plain text'')])"
  by (simp add: extractTextFromFile_def supported_pdf listener_init_def settle_def
      extract_on_close_def parse_excerpt_def trim_def is_space_def newline_def)

lemma delivered_no_uncaught: "\<not> list_ex is_uncaught es \<Longrightarrow> delivered es = es"
  by (simp add: delivered_def list_ex_iff)

lemma delivered_uncaught_before_close:
  assumes "list_ex is_uncaught es"
  shows "delivered (es @ [e]) = delivered es"
proof -
  from assms obtain x where x: "x \<in> set es" and u: "is_uncaught x"
    by (auto simp: list_ex_iff)
  have "\<not> \<not> is_uncaught x" using u by simp
  with x show ?thesis
    unfolding delivered_def by (rule takeWhile_append1)
qed

lemma delivered_keeps_no_close:
  "\<not> list_ex is_close es \<Longrightarrow> \<not> list_ex is_close (delivered es)"
  unfolding delivered_def list_ex_iff using set_takeWhileD by fastforce

lemma uncaught_append_close:
  "list_ex is_uncaught (es @ [Close code]) \<longleftrightarrow> list_ex is_uncaught es"
  by (simp add: list_ex_iff)

text \<open>
  Claim C2, as the code has it. A worker that closes with a non-zero status \<open>c\<close> makes the
  close handler of \<open>#runPythonInline\<close> reject with an error whose message carries \<open>c\<close> and
  the captured stderr, or the captured stdout when stderr is empty. When no \<open>error\<close>
  event (of the child or of its stdin) precedes the close, the orchestrator does not
  crash: \<open>completeAnalysis\<close> rethrows the error with its prefix and the complete-analysis
  handler answers with status 500 and that message. When such an event does precede it,
  the orchestrator ends with an uncaught exception and the handler sends no response.
\<close>

theorem worker_nonzero_exit_rejected:
  "\<not> list_ex is_close es \<and> c \<noteq> 0 \<longrightarrow>
     runPythonInline parse (es @ [Close (Some c)]) =
       Rejected (''Python exited with code '' @ show_int c @ '': '' @
                 (if stderr_of es \<noteq> [] then stderr_of es else stdout_of es)) \<and>
     (w CompleteAnalysis body = es @ [Close (Some c)] \<and> \<not> list_ex is_uncaught es \<longrightarrow>
        \<not> orchestrator_crashes (w CompleteAnalysis body) \<and>
        completeAnalysis w parse body =
          Rejected (''Complete analysis failed: '' @
                    ''Python exited with code '' @ show_int c @ '': '' @
                    (if stderr_of es \<noteq> [] then stderr_of es else stdout_of es)) \<and>
        complete_analysis_handler w parse body =
          Some (Response 500 (JObj [(''message'', JStr (''Complete analysis failed: '' @
                    ''Python exited with code '' @ show_int c @ '': '' @
                    (if stderr_of es \<noteq> [] then stderr_of es else stdout_of es)))]))) \<and>
     (w CompleteAnalysis body = es @ [Close (Some c)] \<and> list_ex is_uncaught es \<longrightarrow>
        orchestrator_crashes (w CompleteAnalysis body) \<and>
        complete_analysis_handler w parse body = None)"
proof (intro impI, elim conjE)
  assume nc: "\<not> list_ex is_close es" and c: "c \<noteq> 0"
  let ?msg = "''Python exited with code '' @ show_int c @ '': '' @
                 (if stderr_of es \<noteq> [] then stderr_of es else stdout_of es)"
  have inline: "runPythonInline parse (es @ [Close (Some c)]) = Rejected ?msg"
    using nc c
    by (simp add: runPythonInline_closed inline_on_close_def show_code_def del: append.simps)
  have clean: "\<not> orchestrator_crashes (w CompleteAnalysis body) \<and>
        completeAnalysis w parse body = Rejected (''Complete analysis failed: '' @ ?msg) \<and>
        complete_analysis_handler w parse body =
          Some (Response 500 (JObj [(''message'', JStr (''Complete analysis failed: '' @ ?msg))]))"
    if w: "w CompleteAnalysis body = es @ [Close (Some c)]" and nu: "\<not> list_ex is_uncaught es"
  proof -
    have all: "\<not> list_ex is_uncaught (es @ [Close (Some c)])"
      using nu by (simp add: uncaught_append_close)
    have d: "delivered (es @ [Close (Some c)]) = es @ [Close (Some c)]"
      using all by (rule delivered_no_uncaught)
    show ?thesis
      using all inline
      by (simp add: orchestrator_crashes_def completeAnalysis_def complete_analysis_handler_def
          d w rethrow_simps respond_simps del: append.simps)
  qed
  have crash: "orchestrator_crashes (w CompleteAnalysis body) \<and>
        complete_analysis_handler w parse body = None"
    if w: "w CompleteAnalysis body = es @ [Close (Some c)]" and u: "list_ex is_uncaught es"
  proof -
    have d: "delivered (es @ [Close (Some c)]) = delivered es"
      using u by (rule delivered_uncaught_before_close)
    have "runPythonInline parse (delivered es) = Pending"
      using nc by (simp add: runPythonInline_pending_iff delivered_keeps_no_close)
    then show ?thesis
      using u
      by (simp add: orchestrator_crashes_def w uncaught_append_close completeAnalysis_def
          complete_analysis_handler_def d rethrow_simps respond_simps del: append.simps)
  qed
  from inline clean crash
  show "runPythonInline parse (es @ [Close (Some c)]) = Rejected ?msg \<and>
     (w CompleteAnalysis body = es @ [Close (Some c)] \<and> \<not> list_ex is_uncaught es \<longrightarrow>
        \<not> orchestrator_crashes (w CompleteAnalysis body) \<and>
        completeAnalysis w parse body = Rejected (''Complete analysis failed: '' @ ?msg) \<and>
        complete_analysis_handler w parse body =
          Some (Response 500 (JObj [(''message'', JStr (''Complete analysis failed: '' @ ?msg))]))) \<and>
     (w CompleteAnalysis body = es @ [Close (Some c)] \<and> list_ex is_uncaught es \<longrightarrow>
        orchestrator_crashes (w CompleteAnalysis body) \<and>
        complete_analysis_handler w parse body = None)"
    by blast
qed

theorem worker_nonzero_exit_rejected_witness:
  "\<not> list_ex is_close [StdoutData ''loading'', StderrData ''Killed''] \<and> (137::int) \<noteq> 0 \<and>
   \<not> list_ex is_uncaught [StdoutData ''loading'', StderrData ''Killed''] \<and>
   runPythonInline (parse_excerpt []) [StdoutData ''loading'', StderrData ''Killed'', Close (Some 137)] =
     Rejected ''Python exited with code 137: Killed'' \<and>
   \<not> orchestrator_crashes [StdoutData ''loading'', StderrData ''Killed'', Close (Some 137)] \<and>
   complete_analysis_handler
       (\<lambda>s payload. [StdoutData ''loading'', StderrData ''Killed'', Close (Some 137)])
       (parse_excerpt []) (JObj [(''complaint'', JStr ''lost money'')]) =
     Some (Response 500
       (JObj [(''message'', JStr ''Complete analysis failed: Python exited with code 137: Killed'')]))"
proof -
  let ?es = "[StdoutData ''loading'', StderrData ''Killed'']"
  let ?w = "\<lambda>(s::script) (payload::json). [StdoutData ''loading'', StderrData ''Killed'', Close (Some 137)]"
  have hyp: "\<not> list_ex is_close ?es \<and> (137::int) \<noteq> 0"
    by simp
  have nu: "\<not> list_ex is_uncaught ?es"
    by simp
  have w: "?w CompleteAnalysis (JObj [(''complaint'', JStr ''lost money'')]) = ?es @ [Close (Some 137)]"
    by simp
  note t = worker_nonzero_exit_rejected
      [of ?es 137 "parse_excerpt []" ?w "JObj [(''complaint'', JStr ''lost money'')]",
       THEN mp, OF hyp]
  from t w nu
  have "runPythonInline (parse_excerpt []) (?es @ [Close (Some 137)]) =
          Rejected (''Python exited with code '' @ show_int 137 @ '': '' @
                 (if stderr_of ?es \<noteq> [] then stderr_of ?es else stdout_of ?es)) \<and>
        \<not> orchestrator_crashes (?w CompleteAnalysis (JObj [(''complaint'', JStr ''lost money'')])) \<and>
        complete_analysis_handler ?w (parse_excerpt []) (JObj [(''complaint'', JStr ''lost money'')]) =
          Some (Response 500 (JObj [(''message'', JStr (''Complete analysis failed: '' @
                    ''Python exited with code '' @ show_int 137 @ '': '' @
                    (if stderr_of ?es \<noteq> [] then stderr_of ?es else stdout_of ?es)))]))"
    by blast
  then show ?thesis
    using hyp nu by (simp add: show_137)
qed

text \<open>
  Claim C3, as the code has it. An unsupported file type makes \<open>extractTextFromFile\<close>
  reject at once, whatever the process events, with "Text extraction failed: Unsupported
  file type: ...". Once a worker is spawned, the promise (of \<open>extractTextFromFile\<close>, of
  \<open>#runPythonInline\<close>, and of any service method wrapping it) is settled exactly when a
  \<open>close\<close> event has been delivered.
\<close>

theorem worker_promise_settles_on_close_only:
  "(\<not> supported_file_type fileType \<longrightarrow>
      extractTextFromFile parse fileType es =
        Rejected (''Text extraction failed: Unsupported file type: '' @ fileType)) \<and>
   (supported_file_type fileType \<longrightarrow>
      (extractTextFromFile parse fileType es \<noteq> Pending \<longleftrightarrow> list_ex is_close es)) \<and>
   (runPythonInline parse es \<noteq> Pending \<longleftrightarrow> list_ex is_close es) \<and>
   (rethrow prefix (runPythonInline parse es) \<noteq> Pending \<longleftrightarrow> list_ex is_close es)"
proof -
  have "rethrow prefix (runPythonInline parse es) = Pending \<longleftrightarrow> runPythonInline parse es = Pending"
    by (cases "runPythonInline parse es") (simp_all add: rethrow_simps)
  then show ?thesis
    by (simp add: extractTextFromFile_def extract_fold_pending listener_init_def
        runPythonInline_pending_iff)
qed

theorem worker_promise_settles_on_close_only_witness:
  "\<not> supported_file_type ''docx'' \<and>
   extractTextFromFile (parse_excerpt []) ''docx'' [] =
     Rejected ''Text extraction failed: Unsupported file type: docx'' \<and>
   supported_file_type ''pdf'' \<and>
   extractTextFromFile (parse_excerpt []) ''pdf'' [StdoutData ''x'', Close (Some 0)] \<noteq> Pending \<and>
   extractTextFromFile (parse_excerpt []) ''pdf'' [StdoutData ''x''] = Pending"
  using worker_promise_settles_on_close_only [of "''docx''" "parse_excerpt []" "[]" "[]"]
        worker_promise_settles_on_close_only
          [of "''pdf''" "parse_excerpt []" "[StdoutData ''x'', Close (Some 0)]" "[]"]
        worker_promise_settles_on_close_only [of "''pdf''" "parse_excerpt []" "[StdoutData ''x'']" "[]"]
  by (simp add: supported_pdf)

text \<open>
  Claim C3 as stated fails when the executable cannot be started: the only event is the
  child's \<open>error\<close> event, no listener handles it, and the promise stays pending on both
  spawn sites; no spawn-classified error is produced.
\<close>

theorem spawn_error_leaves_promise_pending_counterexample:
  "runPythonInline (parse_excerpt []) [ErrorEvent ''spawn python ENOENT''] = Pending \<and>
   rethrow ''Audio analysis failed: ''
     (runPythonInline (parse_excerpt []) [ErrorEvent ''spawn python ENOENT'']) = Pending \<and>
   extractTextFromFile (parse_excerpt []) ''pdf'' [ErrorEvent ''spawn python ENOENT''] = Pending"
  by (simp add: runPythonInline_def extractTextFromFile_def supported_pdf listener_init_def
      rethrow_simps)

section \<open>The Python workers seen from the service\<close>

lemma py_bind_simps:
  "py_bind (py_return x) f = f x"
  "py_bind (py_raise e) f = py_raise e"
  "py_bind (py_call c (Inr v)) f cs = f v (cs @ [c])"
  "py_bind (py_call c (Inl e)) f cs = (Inl e, cs @ [c])"
  by (simp_all add: py_bind_def py_return_def py_raise_def py_call_def fun_eq_iff)

lemma py_get_prop:
  "js_prop data k = Some v \<Longrightarrow> py_get data k dflt = py_return v"
  by (cases data) simp_all

lemma py_get_absent:
  "py_get (JObj kvs) k dflt = py_return (case map_of kvs k of Some v \<Rightarrow> v | None \<Rightarrow> dflt)"
  by simp

lemma not_found_guard_absent:
  "p \<noteq> [] \<Longrightarrow> os_path_exists env (JStr p) = Inr False \<Longrightarrow>
   py_bind (not_found_guard env (JStr p)) f cs = f True (cs @ [PathExists (JStr p)])"
  by (simp add: not_found_guard_def py_bind_def py_return_def py_call_def)

lemma py_raise_apply: "py_raise e cs = (Inl e, cs)"
  by (simp add: py_raise_def)

lemma run_script_import_failure:
  "\<not> imports_ok env \<Longrightarrow> fst (run_script env db s payload cs) = Inl ''ImportError''"
  by (cases s)
     (simp_all add: analyzeAudioFile_py_def analyzeVideoFile_py_def analyzeImageFile_py_def
        analyzePdfFile_py_def completeAnalysis_py_def classifyContent_py_def
        checkDatabaseSimilarity_py_def py_imports_def py_bind_simps py_raise_apply)

lemma similarity_store_failure:
  "stores db = Inl e \<Longrightarrow> \<exists>e'. fst (checkDatabaseSimilarity_py env db payload cs) = Inl e'"
  by (cases "imports_ok env")
     (simp_all add: checkDatabaseSimilarity_py_def py_imports_def py_bind_simps py_raise_apply)

lemma run_script_reads_stdin:
  assumes "fst (run_script env db s payload cs) = Inr obj"
  shows "reads_stdin env db s"
proof (rule ccontr)
  assume "\<not> reads_stdin env db s"
  then consider "\<not> imports_ok env" | e where "s = CheckDatabaseSimilarity" "stores db = Inl e"
    by (auto simp: reads_stdin_def split: sum.splits)
  then show False
  proof cases
    case 1
    from run_script_import_failure [OF this, of db s payload cs] assms show False by simp
  next
    case 2
    from similarity_store_failure [OF 2(2), of env payload cs] assms 2(1) show False by auto
  qed
qed

lemma python_world_read:
  "reads_stdin env db s \<Longrightarrow>
   python_world env db s payload = events_of (py_finish env (fst (run_script env db s payload [])))"
  by (simp add: python_world_def stdin_events_def)

lemma events_of_no_uncaught: "\<not> list_ex is_uncaught (events_of p)"
  by (simp add: events_of_def)

lemma python_world_resolved:
  assumes "fst (run_script env db s payload []) = Inr obj"
    and "roundtrips parse env obj"
  shows "runPythonInline parse (delivered (python_world env db s payload)) = Resolved obj"
proof -
  have w: "python_world env db s payload = events_of (py_finish env (Inr obj))"
    using python_world_read [OF run_script_reads_stdin [OF assms(1)], of payload] assms(1)
    by simp
  have d: "delivered (events_of (py_finish env (Inr obj))) = events_of (py_finish env (Inr obj))"
    by (rule delivered_no_uncaught) (rule events_of_no_uncaught)
  show ?thesis
    unfolding w d using assms(2)
    by (simp add: py_finish_def events_of_def runPythonInline_def
        listener_init_def settle_def inline_on_close_def roundtrips_def)
qed

text \<open>
  Claim C2 as stated fails in two places. When the complete-analysis program dies at its
  import lines and the payload exceeds the pipe buffer, the write to the child's stdin
  fails; no listener handles that \<open>error\<close> event, the orchestrator ends with an uncaught
  exception and the handler sends no response. And \<open>extractTextFromFile\<close>, on a worker
  that wrote "boom" to stdout only and closed with status 2, rejects with a message that
  carries no diagnostic text.
\<close>

theorem stdin_error_crashes_orchestrator_counterexample:
  "python_world broken_env example_db CompleteAnalysis (JObj [(''complaint'', JStr ''lost money'')]) =
     [StdinError ''write EPIPE'', StdoutData [], StderrData ''ImportError'', Close (Some 1)] \<and>
   orchestrator_crashes
     (python_world broken_env example_db CompleteAnalysis (JObj [(''complaint'', JStr ''lost money'')])) \<and>
   complete_analysis_handler (python_world broken_env example_db) (parse_excerpt [])
       (JObj [(''complaint'', JStr ''lost money'')]) = None \<and>
   extractTextFromFile (parse_excerpt []) ''pdf'' [StdoutData ''boom'', Close (Some 2)] =
     Rejected ''Python process exited with code 2: ''"
proof -
  have imp: "\<not> imports_ok broken_env" and fits: "\<not> stdin_fits broken_env payload" for payload
    by (simp_all add: broken_env_def example_env_def)
  have run: "fst (run_script broken_env example_db CompleteAnalysis
                (JObj [(''complaint'', JStr ''lost money'')]) []) = Inl ''ImportError''"
    using imp by (rule run_script_import_failure)
  have w: "python_world broken_env example_db CompleteAnalysis
             (JObj [(''complaint'', JStr ''lost money'')]) =
           [StdinError ''write EPIPE'', StdoutData [], StderrData ''ImportError'', Close (Some 1)]"
    unfolding python_world_def run
    using imp fits by (simp add: stdin_events_def reads_stdin_def py_finish_def events_of_def)
  have two: "show_int 2 = ''2''"
    by (simp add: show_int_def show_nat.simps)
  show ?thesis
    unfolding w
    by (simp add: w orchestrator_crashes_def complete_analysis_handler_def completeAnalysis_def
        delivered_def runPythonInline_def listener_init_def rethrow_simps respond_simps
        extractTextFromFile_def supported_pdf settle_def extract_on_close_def show_code_def two)
qed

lemma audio_nf:
  assumes "imports_ok env" "js_prop data ''audio_file_path'' = Some (JStr p)" "p \<noteq> []"
    "os_path_exists env (JStr p) = Inr False"
  shows "analyzeAudioFile_py env data cs =
           (Inr (JObj [(''error'', JStr ''Audio file not found'')]), cs @ [PathExists (JStr p)])"
  using assms
  by (simp add: analyzeAudioFile_py_def py_imports_def py_bind_simps py_get_prop
      not_found_guard_absent) (simp add: py_return_def)


lemma video_nf:
  assumes "imports_ok env" "js_prop data ''video_file_path'' = Some (JStr p)" "p \<noteq> []"
    "os_path_exists env (JStr p) = Inr False"
  shows "analyzeVideoFile_py env data cs =
           (Inr (JObj [(''error'', JStr ''Video file not found'')]), cs @ [PathExists (JStr p)])"
  using assms
  by (simp add: analyzeVideoFile_py_def py_imports_def py_bind_simps py_get_prop
      not_found_guard_absent) (simp add: py_return_def)

lemma image_nf:
  assumes "imports_ok env" "js_prop data ''image_file_path'' = Some (JStr p)" "p \<noteq> []"
    "os_path_exists env (JStr p) = Inr False"
  shows "analyzeImageFile_py env data cs =
           (Inr (JObj [(''error'', JStr ''Image file not found'')]), cs @ [PathExists (JStr p)])"
  using assms
  by (simp add: analyzeImageFile_py_def py_imports_def py_bind_simps py_get_prop
      not_found_guard_absent) (simp add: py_return_def)

lemma pdf_nf:
  assumes "imports_ok env" "js_prop data ''pdf_file_path'' = Some (JStr p)" "p \<noteq> []"
    "os_path_exists env (JStr p) = Inr False"
  shows "analyzePdfFile_py env data cs =
           (Inr (JObj [(''error'', JStr ''PDF file not found'')]), cs @ [PathExists (JStr p)])"
  using assms
  by (simp add: analyzePdfFile_py_def py_imports_def py_bind_simps py_get_prop
      not_found_guard_absent) (simp add: py_return_def)

text \<open>
  Claim C4. For each of the four extraction adapters: when the imports of its program
  succeed, the path field of the payload is a non-empty string and no file exists at
  that path, the adapter's promise resolves to the explicit "not found" object (for
  audio \<open>{"error": "Audio file not found"}\<close>, and likewise for video, image and PDF);
  it is neither rejected nor left pending. The printed object is read back by
  \<open>JSON.parse\<close> as it was written.
\<close>

theorem adapter_file_not_found_is_result:
  "imports_ok env \<and> p \<noteq> [] \<and> os_path_exists env (JStr p) = Inr False \<longrightarrow>
     (js_prop data ''audio_file_path'' = Some (JStr p) \<and>
      roundtrips parse env (JObj [(''error'', JStr ''Audio file not found'')]) \<longrightarrow>
        analyzeAudioFile (python_world env db) parse data =
          Resolved (JObj [(''error'', JStr ''Audio file not found'')])) \<and>
     (js_prop data ''video_file_path'' = Some (JStr p) \<and>
      roundtrips parse env (JObj [(''error'', JStr ''Video file not found'')]) \<longrightarrow>
        analyzeVideoFile (python_world env db) parse data =
          Resolved (JObj [(''error'', JStr ''Video file not found'')])) \<and>
     (js_prop data ''image_file_path'' = Some (JStr p) \<and>
      roundtrips parse env (JObj [(''error'', JStr ''Image file not found'')]) \<longrightarrow>
        analyzeImageFile (python_world env db) parse data =
          Resolved (JObj [(''error'', JStr ''Image file not found'')])) \<and>
     (js_prop data ''pdf_file_path'' = Some (JStr p) \<and>
      roundtrips parse env (JObj [(''error'', JStr ''PDF file not found'')]) \<longrightarrow>
        analyzePdfFile (python_world env db) parse data =
          Resolved (JObj [(''error'', JStr ''PDF file not found'')]))"
proof (intro impI conjI; elim conjE)
  assume env: "imports_ok env" "p \<noteq> []" "os_path_exists env (JStr p) = Inr False"
  {
    assume "js_prop data ''audio_file_path'' = Some (JStr p)"
      and rt: "roundtrips parse env (JObj [(''error'', JStr ''Audio file not found'')])"
    then have "fst (run_script env db AnalyzeAudio data []) =
                 Inr (JObj [(''error'', JStr ''Audio file not found'')])"
      using env by (simp add: audio_nf)
    then show "analyzeAudioFile (python_world env db) parse data =
                 Resolved (JObj [(''error'', JStr ''Audio file not found'')])"
      using rt by (simp add: analyzeAudioFile_def python_world_resolved rethrow_simps)
  }
  {
    assume "js_prop data ''video_file_path'' = Some (JStr p)"
      and rt: "roundtrips parse env (JObj [(''error'', JStr ''Video file not found'')])"
    then have "fst (run_script env db AnalyzeVideo data []) =
                 Inr (JObj [(''error'', JStr ''Video file not found'')])"
      using env by (simp add: video_nf)
    then show "analyzeVideoFile (python_world env db) parse data =
                 Resolved (JObj [(''error'', JStr ''Video file not found'')])"
      using rt by (simp add: analyzeVideoFile_def python_world_resolved rethrow_simps)
  }
  {
    assume "js_prop data ''image_file_path'' = Some (JStr p)"
      and rt: "roundtrips parse env (JObj [(''error'', JStr ''Image file not found'')])"
    then have "fst (run_script env db AnalyzeImage data []) =
                 Inr (JObj [(''error'', JStr ''Image file not found'')])"
      using env by (simp add: image_nf)
    then show "analyzeImageFile (python_world env db) parse data =
                 Resolved (JObj [(''error'', JStr ''Image file not found'')])"
      using rt by (simp add: analyzeImageFile_def python_world_resolved rethrow_simps)
  }
  {
    assume "js_prop data ''pdf_file_path'' = Some (JStr p)"
      and rt: "roundtrips parse env (JObj [(''error'', JStr ''PDF file not found'')])"
    then have "fst (run_script env db AnalyzePdf data []) =
                 Inr (JObj [(''error'', JStr ''PDF file not found'')])"
      using env by (simp add: pdf_nf)
    then show "analyzePdfFile (python_world env db) parse data =
                 Resolved (JObj [(''error'', JStr ''PDF file not found'')])"
      using rt by (simp add: analyzePdfFile_def python_world_resolved rethrow_simps)
  }
qed


lemma not_found_roundtrips:
  "roundtrips (parse_excerpt not_found_table) (example_env not_found_table files details)
     (JObj [(''error'', JStr ''Audio file not found'')])"
  "roundtrips (parse_excerpt not_found_table) (example_env not_found_table files details)
     (JObj [(''error'', JStr ''PDF file not found'')])"
  by (simp_all add: example_env_def roundtrips_def parse_excerpt_def dumps_excerpt_def
      not_found_table_def trim_def is_space_def newline_def)

theorem adapter_file_not_found_is_result_witness:
  "imports_ok (example_env not_found_table [] JNull) \<and> ''/tmp/missing.wav'' \<noteq> [] \<and>
   os_path_exists (example_env not_found_table [] JNull) (JStr ''/tmp/missing.wav'') = Inr False \<and>
   js_prop (JObj [(''audio_file_path'', JStr ''/tmp/missing.wav'')]) ''audio_file_path'' =
     Some (JStr ''/tmp/missing.wav'') \<and>
   roundtrips (parse_excerpt not_found_table) (example_env not_found_table [] JNull)
     (JObj [(''error'', JStr ''Audio file not found'')]) \<and>
   analyzeAudioFile (python_world (example_env not_found_table [] JNull) example_db)
       (parse_excerpt not_found_table) (JObj [(''audio_file_path'', JStr ''/tmp/missing.wav'')]) =
     Resolved (JObj [(''error'', JStr ''Audio file not found'')]) \<and>
   js_prop (JObj [(''pdf_file_path'', JStr ''/tmp/missing.wav'')]) ''pdf_file_path'' =
     Some (JStr ''/tmp/missing.wav'') \<and>
   roundtrips (parse_excerpt not_found_table) (example_env not_found_table [] JNull)
     (JObj [(''error'', JStr ''PDF file not found'')]) \<and>
   analyzePdfFile (python_world (example_env not_found_table [] JNull) example_db)
       (parse_excerpt not_found_table) (JObj [(''pdf_file_path'', JStr ''/tmp/missing.wav'')]) =
     Resolved (JObj [(''error'', JStr ''PDF file not found'')])"
proof -
  let ?env = "example_env not_found_table [] JNull"
  let ?p = "''/tmp/missing.wav''"
  have env: "imports_ok ?env \<and> ?p \<noteq> [] \<and> os_path_exists ?env (JStr ?p) = Inr False"
    by (simp add: example_env_def)
  have pa: "js_prop (JObj [(''audio_file_path'', JStr ?p)]) ''audio_file_path'' = Some (JStr ?p)"
    by simp
  have pp: "js_prop (JObj [(''pdf_file_path'', JStr ?p)]) ''pdf_file_path'' = Some (JStr ?p)"
    by simp
  note rta = not_found_roundtrips(1) [of "[]" JNull]
  note rtp = not_found_roundtrips(2) [of "[]" JNull]
  note audio = adapter_file_not_found_is_result
      [of ?env ?p "JObj [(''audio_file_path'', JStr ?p)]" "parse_excerpt not_found_table" example_db,
       THEN mp, OF env]
  note pdf = adapter_file_not_found_is_result
      [of ?env ?p "JObj [(''pdf_file_path'', JStr ?p)]" "parse_excerpt not_found_table" example_db,
       THEN mp, OF env]
  from audio pa rta have a: "analyzeAudioFile (python_world ?env example_db)
       (parse_excerpt not_found_table) (JObj [(''audio_file_path'', JStr ?p)]) =
     Resolved (JObj [(''error'', JStr ''Audio file not found'')])"
    by blast
  from pdf pp rtp have b: "analyzePdfFile (python_world ?env example_db)
       (parse_excerpt not_found_table) (JObj [(''pdf_file_path'', JStr ?p)]) =
     Resolved (JObj [(''error'', JStr ''PDF file not found'')])"
    by blast
  from env pa pp rta rtp a b show ?thesis by blast
qed

lemma path_absent_falsy:
  "path_absent kvs k \<Longrightarrow> \<not> py_truthy (case map_of kvs k of None \<Rightarrow> JNull | Some v \<Rightarrow> v)"
  by (simp add: path_absent_def split: option.splits)

lemma completeAnalysis_py_complaint_only:
  assumes imp: "imports_ok env"
    and c: "map_of kvs ''complaint'' = Some complaint"
    and abs: "path_absent kvs ''image_path''" "path_absent kvs ''pdf_path''"
      "path_absent kvs ''audio_path''" "path_absent kvs ''video_path''"
    and texts: "texts = [complaint, JStr [], JStr [], JStr [], JStr [], JStr []]"
    and sub: "contradiction_in_complain_and_evidences env texts = Inr (analysis, has)"
      "get_incident_details_from_text env texts = Inr details"
      "get_narrative_summary env texts = Inr summary"
    and cls: "py_truthy details \<longrightarrow> classify_cybercrime env details = Inr (p, s)"
  shows "completeAnalysis_py env (JObj kvs) cs =
           (Inr (JObj [(''contradiction_analysis'', analysis),
                       (''has_contradiction'', has),
                       (''incident_details'', details),
                       (''narrative_summary'', summary),
                       (''classification'',
                          if py_truthy details then JStr (priority_label p) else JStr ''Unknown''),
                       (''priority_score'', if py_truthy details then JNum s else JNum 0)]),
            cs @ [Contradiction texts, IncidentDetails texts, NarrativeSummary texts] @
              (if py_truthy details then [Classify details] else []))"
proof -
  note falsy = abs [THEN path_absent_falsy]
  show ?thesis
    unfolding completeAnalysis_py_def
    using imp c falsy sub cls
    by (simp add: py_imports_def py_bind_simps Let_def texts [symmetric])
       (simp add: classify_incident_def py_return_def py_bind_def py_call_def)
qed


text \<open>
  Claim C5. \<open>completeAnalysis\<close> on a payload with the complaint set and no evidence
  paths (each path key absent or falsy), in an environment whose analysis helpers return:
  the program makes no file-existence check and calls no extractor, passes the empty
  string as each evidence text to the three analysis helpers, and prints an object with
  exactly the fields \<open>contradiction_analysis\<close>, \<open>has_contradiction\<close>, \<open>incident_details\<close>,
  \<open>narrative_summary\<close>, \<open>classification\<close> and \<open>priority_score\<close>; the service method resolves to
  that object and the handler answers 200 with it.
\<close>

theorem completeAnalysis_complaint_only_succeeds:
  "imports_ok env \<and>
   map_of kvs ''complaint'' = Some complaint \<and>
   path_absent kvs ''image_path'' \<and> path_absent kvs ''pdf_path'' \<and>
   path_absent kvs ''audio_path'' \<and> path_absent kvs ''video_path'' \<and>
   texts = [complaint, JStr [], JStr [], JStr [], JStr [], JStr []] \<and>
   contradiction_in_complain_and_evidences env texts = Inr (analysis, has) \<and>
   get_incident_details_from_text env texts = Inr details \<and>
   get_narrative_summary env texts = Inr summary \<and>
   (py_truthy details \<longrightarrow> classify_cybercrime env details = Inr (p, s)) \<and>
   obj = JObj [(''contradiction_analysis'', analysis),
               (''has_contradiction'', has),
               (''incident_details'', details),
               (''narrative_summary'', summary),
               (''classification'',
                  if py_truthy details then JStr (priority_label p) else JStr ''Unknown''),
               (''priority_score'', if py_truthy details then JNum s else JNum 0)] \<longrightarrow>
     fst (completeAnalysis_py env (JObj kvs) []) = Inr obj \<and>
     snd (completeAnalysis_py env (JObj kvs) []) =
       [Contradiction texts, IncidentDetails texts, NarrativeSummary texts] @
       (if py_truthy details then [Classify details] else []) \<and>
     \<not> list_ex is_extraction_call (snd (completeAnalysis_py env (JObj kvs) [])) \<and>
     (roundtrips parse env obj \<longrightarrow>
        completeAnalysis (python_world env db) parse (JObj kvs) = Resolved obj \<and>
        complete_analysis_handler (python_world env db) parse (JObj kvs) =
          Some (Response 200 obj))"
proof (intro impI, elim conjE)
  assume h: "imports_ok env" "map_of kvs ''complaint'' = Some complaint"
    "path_absent kvs ''image_path''" "path_absent kvs ''pdf_path''"
    "path_absent kvs ''audio_path''" "path_absent kvs ''video_path''"
    "texts = [complaint, JStr [], JStr [], JStr [], JStr [], JStr []]"
    "contradiction_in_complain_and_evidences env texts = Inr (analysis, has)"
    "get_incident_details_from_text env texts = Inr details"
    "get_narrative_summary env texts = Inr summary"
    "py_truthy details \<longrightarrow> classify_cybercrime env details = Inr (p, s)"
  assume obj: "obj = JObj [(''contradiction_analysis'', analysis),
               (''has_contradiction'', has),
               (''incident_details'', details),
               (''narrative_summary'', summary),
               (''classification'',
                  if py_truthy details then JStr (priority_label p) else JStr ''Unknown''),
               (''priority_score'', if py_truthy details then JNum s else JNum 0)]"
  have run: "completeAnalysis_py env (JObj kvs) [] =
               (Inr obj, [Contradiction texts, IncidentDetails texts, NarrativeSummary texts] @
                  (if py_truthy details then [Classify details] else []))"
    unfolding obj using completeAnalysis_py_complaint_only [OF h, of "[]"] by simp
  have a: "fst (completeAnalysis_py env (JObj kvs) []) = Inr obj"
    by (simp add: run)
  have b: "snd (completeAnalysis_py env (JObj kvs) []) =
       [Contradiction texts, IncidentDetails texts, NarrativeSummary texts] @
       (if py_truthy details then [Classify details] else [])"
    by (simp add: run)
  have c: "\<not> list_ex is_extraction_call (snd (completeAnalysis_py env (JObj kvs) []))"
    unfolding b by (simp add: is_extraction_call_def)
  have d: "completeAnalysis (python_world env db) parse (JObj kvs) = Resolved obj"
    if "roundtrips parse env obj"
    using python_world_resolved [of env db CompleteAnalysis "JObj kvs" obj parse] a that
    by (simp add: completeAnalysis_def rethrow_simps)
  from a b c d
  show "fst (completeAnalysis_py env (JObj kvs) []) = Inr obj \<and>
     snd (completeAnalysis_py env (JObj kvs) []) =
       [Contradiction texts, IncidentDetails texts, NarrativeSummary texts] @
       (if py_truthy details then [Classify details] else []) \<and>
     \<not> list_ex is_extraction_call (snd (completeAnalysis_py env (JObj kvs) [])) \<and>
     (roundtrips parse env obj \<longrightarrow>
        completeAnalysis (python_world env db) parse (JObj kvs) = Resolved obj \<and>
        complete_analysis_handler (python_world env db) parse (JObj kvs) =
          Some (Response 200 obj))"
    by (simp add: complete_analysis_handler_def respond_simps)
qed


lemmas eval_py = completeAnalysis_py_def classifyContent_py_def classify_incident_def
  py_imports_def py_bind_def py_return_def py_raise_def py_call_def Let_def

lemma example_roundtrips:
  "roundtrips (parse_excerpt analysis_table) (example_env analysis_table files details)
     (analysis_of (JObj [(''crime_type'', JStr ''phishing'')]) ''High'' 7)"
  "roundtrips (parse_excerpt analysis_table) (example_env analysis_table files details)
     (analysis_of (JObj []) ''Unknown'' 0)"
  by (simp_all add: roundtrips_def example_env_def dumps_excerpt_def parse_excerpt_def
      analysis_table_def analysis_of_def trim_def is_space_def newline_def)

theorem completeAnalysis_complaint_only_succeeds_witness:
  "path_absent [(''complaint'', JStr ''lost money'')] ''image_path'' \<and>
   path_absent [(''complaint'', JStr ''lost money'')] ''video_path'' \<and>
   get_incident_details_from_text
       (example_env analysis_table [] (JObj [(''crime_type'', JStr ''phishing'')]))
       [JStr ''lost money'', JStr [], JStr [], JStr [], JStr [], JStr []] =
     Inr (JObj [(''crime_type'', JStr ''phishing'')]) \<and>
   roundtrips (parse_excerpt analysis_table)
     (example_env analysis_table [] (JObj [(''crime_type'', JStr ''phishing'')]))
     (analysis_of (JObj [(''crime_type'', JStr ''phishing'')]) ''High'' 7) \<and>
   snd (completeAnalysis_py
          (example_env analysis_table [] (JObj [(''crime_type'', JStr ''phishing'')]))
          (JObj [(''complaint'', JStr ''lost money'')]) []) =
     [Contradiction [JStr ''lost money'', JStr [], JStr [], JStr [], JStr [], JStr []],
      IncidentDetails [JStr ''lost money'', JStr [], JStr [], JStr [], JStr [], JStr []],
      NarrativeSummary [JStr ''lost money'', JStr [], JStr [], JStr [], JStr [], JStr []],
      Classify (JObj [(''crime_type'', JStr ''phishing'')])] \<and>
   complete_analysis_handler
       (python_world (example_env analysis_table [] (JObj [(''crime_type'', JStr ''phishing'')]))
          example_db)
       (parse_excerpt analysis_table) (JObj [(''complaint'', JStr ''lost money'')]) =
     Some (Response 200 (analysis_of (JObj [(''crime_type'', JStr ''phishing'')]) ''High'' 7))"
proof -
  let ?details = "JObj [(''crime_type'', JStr ''phishing'')]"
  let ?env = "example_env analysis_table [] ?details"
  let ?kvs = "[(''complaint'', JStr ''lost money'')]"
  let ?texts = "[JStr ''lost money'', JStr [], JStr [], JStr [], JStr [], JStr []]"
  let ?obj = "analysis_of ?details ''High'' 7"
  have hyp:
    "imports_ok ?env \<and>
     map_of ?kvs ''complaint'' = Some (JStr ''lost money'') \<and>
     path_absent ?kvs ''image_path'' \<and> path_absent ?kvs ''pdf_path'' \<and>
     path_absent ?kvs ''audio_path'' \<and> path_absent ?kvs ''video_path'' \<and>
     ?texts = [JStr ''lost money'', JStr [], JStr [], JStr [], JStr [], JStr []] \<and>
     contradiction_in_complain_and_evidences ?env ?texts = Inr (JStr ''consistent'', JBool False) \<and>
     get_incident_details_from_text ?env ?texts = Inr ?details \<and>
     get_narrative_summary ?env ?texts = Inr (JStr ''summary'') \<and>
     (py_truthy ?details \<longrightarrow> classify_cybercrime ?env ?details = Inr (High, 7)) \<and>
     ?obj = JObj [(''contradiction_analysis'', JStr ''consistent''),
               (''has_contradiction'', JBool False),
               (''incident_details'', ?details),
               (''narrative_summary'', JStr ''summary''),
               (''classification'',
                  if py_truthy ?details then JStr (priority_label High) else JStr ''Unknown''),
               (''priority_score'', if py_truthy ?details then JNum 7 else JNum 0)]"
    by (simp add: example_env_def path_absent_def analysis_of_def)
  have rt: "roundtrips (parse_excerpt analysis_table) ?env ?obj"
    by (rule example_roundtrips)
  note concl = completeAnalysis_complaint_only_succeeds
          [of ?env ?kvs "JStr ''lost money''" ?texts "JStr ''consistent''" "JBool False" ?details
              "JStr ''summary''" High 7 ?obj "parse_excerpt analysis_table" example_db,
           THEN mp, OF hyp]
  have truthy: "py_truthy ?details" by simp
  from concl rt hyp truthy show ?thesis by simp
qed

lemma py_bind_Inr:
  "py_bind m f cs = (Inr y, cs'') \<Longrightarrow> \<exists>x cs'. m cs = (Inr x, cs') \<and> f x cs' = (Inr y, cs'')"
  by (auto simp: py_bind_def split: prod.splits sum.splits)

lemma priority_label_in: "priority_label p \<in> priority_labels"
  by (cases p) (simp_all add: priority_labels_def)

lemma unknown_not_label: "''Unknown'' \<notin> priority_labels"
  by (simp add: priority_labels_def)

lemma py_bind_InrE:
  assumes "py_bind m f cs = (Inr y, cs'')"
  obtains x cs' where "m cs = (Inr x, cs')" and "f x cs' = (Inr y, cs'')"
  using assms by (auto simp: py_bind_def split: prod.splits sum.splits)

lemma classify_incident_Inr:
  assumes "classify_incident env details cs = (Inr r, cs')"
  shows "\<exists>cls sc. r = (JStr cls, JNum sc) \<and>
           (py_truthy details \<longrightarrow>
              (\<exists>p. classify_cybercrime env details = Inr (p, sc) \<and> cls = priority_label p)) \<and>
           (\<not> py_truthy details \<longrightarrow> cls = ''Unknown'' \<and> sc = 0)"
proof (cases "py_truthy details")
  case True
  with assms have "py_bind (py_call (Classify details) (classify_cybercrime env details))
      (\<lambda>classified. py_return (JStr (priority_label (fst classified)), JNum (snd classified))) cs =
      (Inr r, cs')"
    by (simp add: classify_incident_def)
  then obtain x cs1 where call: "py_call (Classify details) (classify_cybercrime env details) cs =
      (Inr x, cs1)"
    and ret: "py_return (JStr (priority_label (fst x)), JNum (snd x)) cs1 = (Inr r, cs')"
    by (rule py_bind_InrE)
  from call have "classify_cybercrime env details = Inr (fst x, snd x)"
    by (simp add: py_call_def)
  moreover from ret have "r = (JStr (priority_label (fst x)), JNum (snd x))"
    by (simp add: py_return_def)
  ultimately show ?thesis using True by blast
next
  case False
  with assms show ?thesis by (auto simp: classify_incident_def py_return_def)
qed

lemma completeAnalysis_py_Inr:
  "completeAnalysis_py env data cs = (Inr obj, cs') \<Longrightarrow>
   \<exists>details cls sc.
      js_prop obj ''incident_details'' = Some details \<and>
      js_prop obj ''classification'' = Some (JStr cls) \<and>
      js_prop obj ''priority_score'' = Some (JNum sc) \<and>
      (py_truthy details \<longrightarrow>
         (\<exists>p. classify_cybercrime env details = Inr (p, sc) \<and> cls = priority_label p)) \<and>
      (\<not> py_truthy details \<longrightarrow> cls = ''Unknown'' \<and> sc = 0)"
  unfolding completeAnalysis_py_def Let_def
  apply (erule py_bind_InrE)+
  apply (drule classify_incident_Inr)
  apply (clarsimp simp: py_return_def)
  done

lemma classifyContent_py_Inr:
  "classifyContent_py env data cs = (Inr res, cs') \<Longrightarrow>
   \<exists>p sc. classify_cybercrime env data = Inr (p, sc) \<and>
     res = JObj [(''priority'', JStr (priority_label p)), (''score'', JNum sc)]"
  unfolding classifyContent_py_def
  apply (erule py_bind_InrE)+
  apply (clarsimp simp: py_return_def py_call_def)
  done

text \<open>
  Claim C6, as the code has it. Every result of the classifier method \<open>classifyContent\<close>
  is the object of the label and the score that \<open>classify_cybercrime\<close> returned for the
  payload, a label out of Very Low, Low, Medium, High, Very High. The classification field
  of every successful complete-analysis result is the label that \<open>classify_cybercrime\<close>
  returned for the incident details, with its score as \<open>priority_score\<close>, when the incident
  details are non-empty; when they are empty (falsy) it is the string "Unknown", with
  \<open>priority_score\<close> 0. The service methods resolve to exactly the object the program
  printed.
\<close>

theorem classification_label_or_unknown:
  "(fst (classifyContent_py env (classify_payload content) []) = Inr res \<longrightarrow>
      (\<exists>p sc. classify_cybercrime env (classify_payload content) = Inr (p, sc) \<and>
         res = JObj [(''priority'', JStr (priority_label p)), (''score'', JNum sc)] \<and>
         priority_label p \<in> priority_labels) \<and>
      (roundtrips parse env res \<longrightarrow>
         classifyContent (python_world env db) parse content = Resolved res)) \<and>
   (fst (completeAnalysis_py env data []) = Inr obj \<longrightarrow>
      (\<exists>details cls sc.
          js_prop obj ''incident_details'' = Some details \<and>
          js_prop obj ''classification'' = Some (JStr cls) \<and>
          js_prop obj ''priority_score'' = Some (JNum sc) \<and>
          (py_truthy details \<longrightarrow>
             (\<exists>p. classify_cybercrime env details = Inr (p, sc) \<and> cls = priority_label p) \<and>
             cls \<in> priority_labels) \<and>
          (\<not> py_truthy details \<longrightarrow> cls = ''Unknown'' \<and> sc = 0)) \<and>
      (roundtrips parse env obj \<longrightarrow>
         completeAnalysis (python_world env db) parse data = Resolved obj))"
proof (intro conjI impI)
  assume "fst (classifyContent_py env (classify_payload content) []) = Inr res"
  then obtain cs' where "classifyContent_py env (classify_payload content) [] = (Inr res, cs')"
    by (cases "classifyContent_py env (classify_payload content) []") simp
  then have "\<exists>p sc. classify_cybercrime env (classify_payload content) = Inr (p, sc) \<and>
         res = JObj [(''priority'', JStr (priority_label p)), (''score'', JNum sc)]"
    by (rule classifyContent_py_Inr)
  then show "\<exists>p sc. classify_cybercrime env (classify_payload content) = Inr (p, sc) \<and>
         res = JObj [(''priority'', JStr (priority_label p)), (''score'', JNum sc)] \<and>
         priority_label p \<in> priority_labels"
    using priority_label_in by blast
next
  assume "fst (classifyContent_py env (classify_payload content) []) = Inr res"
    and "roundtrips parse env res"
  then show "classifyContent (python_world env db) parse content = Resolved res"
    using python_world_resolved [of env db ClassifyContent "classify_payload content" res parse]
    by (simp add: classifyContent_def rethrow_simps)
next
  assume "fst (completeAnalysis_py env data []) = Inr obj"
  then obtain cs' where "completeAnalysis_py env data [] = (Inr obj, cs')"
    by (cases "completeAnalysis_py env data []") simp
  then have "\<exists>details cls sc.
      js_prop obj ''incident_details'' = Some details \<and>
      js_prop obj ''classification'' = Some (JStr cls) \<and>
      js_prop obj ''priority_score'' = Some (JNum sc) \<and>
      (py_truthy details \<longrightarrow>
         (\<exists>p. classify_cybercrime env details = Inr (p, sc) \<and> cls = priority_label p)) \<and>
      (\<not> py_truthy details \<longrightarrow> cls = ''Unknown'' \<and> sc = 0)"
    by (rule completeAnalysis_py_Inr)
  then show "\<exists>details cls sc.
          js_prop obj ''incident_details'' = Some details \<and>
          js_prop obj ''classification'' = Some (JStr cls) \<and>
          js_prop obj ''priority_score'' = Some (JNum sc) \<and>
          (py_truthy details \<longrightarrow>
             (\<exists>p. classify_cybercrime env details = Inr (p, sc) \<and> cls = priority_label p) \<and>
             cls \<in> priority_labels) \<and>
          (\<not> py_truthy details \<longrightarrow> cls = ''Unknown'' \<and> sc = 0)"
    using priority_label_in by blast
next
  assume "fst (completeAnalysis_py env data []) = Inr obj" and "roundtrips parse env obj"
  then show "completeAnalysis (python_world env db) parse data = Resolved obj"
    using python_world_resolved [of env db CompleteAnalysis data obj parse]
    by (simp add: completeAnalysis_def rethrow_simps)
qed

lemma classify_roundtrips:
  "roundtrips (parse_excerpt classify_table) (example_env classify_table files details)
     (JObj [(''priority'', JStr ''High''), (''score'', JNum 7)])"
  by (simp add: roundtrips_def example_env_def dumps_excerpt_def parse_excerpt_def
      classify_table_def trim_def is_space_def newline_def)

theorem classification_label_or_unknown_witness:
  "fst (classifyContent_py (example_env classify_table [] JNull)
          (classify_payload (JStr ''phishing link sent by sms'')) []) =
     Inr (JObj [(''priority'', JStr ''High''), (''score'', JNum 7)]) \<and>
   roundtrips (parse_excerpt classify_table) (example_env classify_table [] JNull)
     (JObj [(''priority'', JStr ''High''), (''score'', JNum 7)]) \<and>
   classifyContent (python_world (example_env classify_table [] JNull) example_db)
       (parse_excerpt classify_table) (JStr ''phishing link sent by sms'') =
     Resolved (JObj [(''priority'', JStr ''High''), (''score'', JNum 7)]) \<and>
   fst (completeAnalysis_py
          (example_env analysis_table [] (JObj [(''crime_type'', JStr ''phishing'')]))
          (JObj [(''complaint'', JStr ''lost money'')]) []) =
     Inr (analysis_of (JObj [(''crime_type'', JStr ''phishing'')]) ''High'' 7) \<and>
   roundtrips (parse_excerpt analysis_table)
     (example_env analysis_table [] (JObj [(''crime_type'', JStr ''phishing'')]))
     (analysis_of (JObj [(''crime_type'', JStr ''phishing'')]) ''High'' 7) \<and>
   completeAnalysis
       (python_world (example_env analysis_table [] (JObj [(''crime_type'', JStr ''phishing'')]))
          example_db)
       (parse_excerpt analysis_table) (JObj [(''complaint'', JStr ''lost money'')]) =
     Resolved (analysis_of (JObj [(''crime_type'', JStr ''phishing'')]) ''High'' 7) \<and>
   fst (completeAnalysis_py (example_env analysis_table [] (JObj []))
          (JObj [(''complaint'', JStr ''lost money'')]) []) =
     Inr (analysis_of (JObj []) ''Unknown'' 0) \<and>
   (\<exists>details cls sc.
       js_prop (analysis_of (JObj []) ''Unknown'' 0) ''incident_details'' = Some details \<and>
       js_prop (analysis_of (JObj []) ''Unknown'' 0) ''classification'' = Some (JStr cls) \<and>
       js_prop (analysis_of (JObj []) ''Unknown'' 0) ''priority_score'' = Some (JNum sc) \<and>
       \<not> py_truthy details \<and> cls = ''Unknown'' \<and> sc = 0)"
proof -
  let ?cenv = "example_env classify_table [] JNull"
  let ?res = "JObj [(''priority'', JStr ''High''), (''score'', JNum 7)]"
  let ?details = "JObj [(''crime_type'', JStr ''phishing'')]"
  let ?env = "example_env analysis_table [] ?details"
  let ?data = "JObj [(''complaint'', JStr ''lost money'')]"
  let ?obj = "analysis_of ?details ''High'' 7"
  let ?uenv = "example_env analysis_table [] (JObj [])"
  let ?uobj = "analysis_of (JObj []) ''Unknown'' 0"
  have a: "fst (classifyContent_py ?cenv (classify_payload (JStr ''phishing link sent by sms'')) []) =
             Inr ?res"
    by (simp add: eval_py example_env_def classify_payload_def)
  have b: "fst (completeAnalysis_py ?env ?data []) = Inr ?obj"
    by (simp add: eval_py example_env_def analysis_of_def)
  have u: "fst (completeAnalysis_py ?uenv ?data []) = Inr ?uobj"
    by (simp add: eval_py example_env_def analysis_of_def)
  note rc = classify_roundtrips [of "[]" JNull]
  note rb = example_roundtrips(1) [of "[]" ?details]
  note t1 = classification_label_or_unknown
      [where env = ?cenv and content = "JStr ''phishing link sent by sms''" and res = ?res
         and parse = "parse_excerpt classify_table" and db = example_db,
       THEN conjunct1, THEN mp, OF a, THEN conjunct2, THEN mp, OF rc]
  note t2 = classification_label_or_unknown
      [where env = ?env and data = ?data and obj = ?obj
         and parse = "parse_excerpt analysis_table" and db = example_db,
       THEN conjunct2, THEN mp, OF b, THEN conjunct2, THEN mp, OF rb]
  note t3 = classification_label_or_unknown
      [where env = ?uenv and data = ?data and obj = ?uobj,
       THEN conjunct2, THEN mp, OF u, THEN conjunct1]
  from t3 have unknown: "\<exists>details cls sc.
       js_prop ?uobj ''incident_details'' = Some details \<and>
       js_prop ?uobj ''classification'' = Some (JStr cls) \<and>
       js_prop ?uobj ''priority_score'' = Some (JNum sc) \<and>
       \<not> py_truthy details \<and> cls = ''Unknown'' \<and> sc = 0"
    by (auto simp: analysis_of_def)
  from a rc t1 b rb t2 u unknown show ?thesis by blast
qed

text \<open>
  Claim C6 as stated fails: when the incident-detail helper returns an empty object, the
  successful complete-analysis result has the classification "Unknown", which is none
  of the five labels.
\<close>

theorem completeAnalysis_unknown_classification_counterexample:
  "completeAnalysis (python_world (example_env analysis_table [] (JObj [])) example_db)
       (parse_excerpt analysis_table) (JObj [(''complaint'', JStr ''lost money'')]) =
     Resolved (analysis_of (JObj []) ''Unknown'' 0) \<and>
   js_prop (analysis_of (JObj []) ''Unknown'' 0) ''classification'' = Some (JStr ''Unknown'') \<and>
   js_prop (analysis_of (JObj []) ''Unknown'' 0) ''priority_score'' = Some (JNum 0) \<and>
   ''Unknown'' \<notin> priority_labels"
proof -
  have run: "fst (run_script (example_env analysis_table [] (JObj [])) example_db CompleteAnalysis
                (JObj [(''complaint'', JStr ''lost money'')]) []) =
             Inr (analysis_of (JObj []) ''Unknown'' 0)"
    by (simp add: eval_py example_env_def analysis_of_def)
  have "runPythonInline (parse_excerpt analysis_table)
          (delivered (python_world (example_env analysis_table [] (JObj [])) example_db
             CompleteAnalysis (JObj [(''complaint'', JStr ''lost money'')]))) =
        Resolved (analysis_of (JObj []) ''Unknown'' 0)"
    using run example_roundtrips(2) by (rule python_world_resolved)
  then show ?thesis
    by (simp add: completeAnalysis_def rethrow_simps unknown_not_label) (simp add: analysis_of_def)
qed

section \<open>Similarity thresholds\<close>

lemma map_of_obj_set: "map_of (obj_set kvs k v) k = Some v"
  by (induction kvs) auto

lemma advanced_payload_thresholds:
  "fst (similarity_thresholds (check_similarity_advanced_payload body) cs) =
     Inr (js_or (js_prop body ''cross_threshold'') (JNum (1 / 2)),
          js_or (js_prop body ''within_threshold'') (JNum (3 / 10)))"
  by (simp add: similarity_thresholds_def check_similarity_advanced_payload_def Let_def
      map_of_obj_set py_bind_def py_return_def)

lemma advanced_payload_truthy:
  assumes "js_prop body ''cross_threshold'' = Some c" "js_truthy (Some c)"
    and "js_prop body ''within_threshold'' = Some w" "js_truthy (Some w)"
  shows "fst (similarity_thresholds (check_similarity_advanced_payload body) cs) = Inr (c, w)"
  using assms by (simp add: advanced_payload_thresholds js_or_def)

text \<open>
  Claim C8 at a request that supplies the threshold 0 to the advanced endpoint. The
  handler builds the thresholds with \<open>cross_threshold || 0.5\<close> and \<open>within_threshold ||
  0.3\<close>, so the supplied 0 is replaced by the default and the program's active
  thresholds are 0.5 and 0.3. The program itself, given thresholds of 0 in the payload
  (the path of the plain check-similarity endpoint), uses 0.
\<close>

theorem advanced_zero_threshold_replaced_by_default:
  "check_similarity_advanced_payload
       (JObj [(''cross_threshold'', JNum 0), (''within_threshold'', JNum 0),
              (''entity_data'', JObj [])]) =
     JObj [(''thresholds'', JObj [(''cross_threshold'', JNum (1 / 2)),
                                  (''within_threshold'', JNum (3 / 10))])] \<and>
   fst (similarity_thresholds
          (check_similarity_advanced_payload
             (JObj [(''cross_threshold'', JNum 0), (''within_threshold'', JNum 0),
                    (''entity_data'', JObj [])])) []) =
     Inr (JNum (1 / 2), JNum (3 / 10)) \<and>
   fst (similarity_thresholds
          (JObj [(''thresholds'', JObj [(''cross_threshold'', JNum 0),
                                        (''within_threshold'', JNum 0)])]) []) =
     Inr (JNum 0, JNum 0)"
  by (simp add: check_similarity_advanced_payload_def js_or_def similarity_thresholds_def
      py_bind_def py_return_def)


section \<open>Within-store matching\<close>
















section \<open>Batch analysis\<close>

lemma rethrow_Pending_iff: "rethrow prefix p = Pending \<longleftrightarrow> p = Pending"
  by (cases p) (simp_all add: rethrow_def)

lemma batch_switch_adapter:
  "batch_switch file_path file_type = CallAdapter s payload \<Longrightarrow>
   s = AnalyzeAudio \<or> s = AnalyzeVideo \<or> s = AnalyzeImage \<or> s = AnalyzePdf"
  by (auto simp: batch_switch_def Let_def split: option.splits json.splits if_splits)

lemma service_method_settles:
  assumes "list_ex is_close (w s payload)" and "\<not> list_ex is_uncaught (w s payload)"
    and "s = AnalyzeAudio \<or> s = AnalyzeVideo \<or> s = AnalyzeImage \<or> s = AnalyzePdf"
  shows "service_method s w parse payload \<noteq> Pending"
proof -
  have d: "delivered (w s payload) = w s payload"
    using assms(2) by (rule delivered_no_uncaught)
  have "runPythonInline parse (delivered (w s payload)) \<noteq> Pending"
    unfolding d using assms(1) by (simp add: runPythonInline_pending_iff)
  with assms(3) show ?thesis
    by (auto simp: analyzeAudioFile_def analyzeVideoFile_def analyzeImageFile_def
          analyzePdfFile_def rethrow_Pending_iff)
qed

lemma started_iff:
  "Started s payload \<in> set (file_started file) \<longleftrightarrow>
   batch_switch (js_prop file ''file_path'') (js_prop file ''file_type'') = CallAdapter s payload"
  by (cases "batch_switch (js_prop file ''file_path'') (js_prop file ''file_type'')")
     (auto simp: file_started_def)

lemma settled_not_started: "Settled \<notin> set (file_started file)"
  by (simp add: file_started_def split: switch_result.splits)

lemma batch_item_settles:
  assumes "\<forall>s payload. Started s payload \<in> set (file_started file) \<longrightarrow>
             list_ex is_close (w s payload) \<and> \<not> list_ex is_uncaught (w s payload)"
  shows "batch_item w parse (js_prop file ''file_path'') (js_prop file ''file_type'') \<noteq> Pending"
proof (cases "batch_switch (js_prop file ''file_path'') (js_prop file ''file_type'')")
  case (CallAdapter s payload)
  then have "Started s payload \<in> set (file_started file)"
    by (simp add: started_iff)
  with assms have "list_ex is_close (w s payload)" "\<not> list_ex is_uncaught (w s payload)"
    by blast+
  moreover note batch_switch_adapter [OF CallAdapter]
  ultimately have "service_method s w parse payload \<noteq> Pending"
    by (rule service_method_settles)
  with CallAdapter show ?thesis by (simp add: batch_item_def)
next
  case (Value v)
  then show ?thesis by (simp add: batch_item_def)
next
  case (Throw m)
  then show ?thesis by (simp add: batch_item_def)
qed

lemma batch_entry_settles:
  assumes "\<forall>s payload. Started s payload \<in> set (file_started file) \<longrightarrow>
             list_ex is_close (w s payload) \<and> \<not> list_ex is_uncaught (w s payload)"
  shows "\<exists>entry. batch_entry w parse file = Some entry"
  using batch_item_settles [OF assms, of parse]
  by (cases "batch_item w parse (js_prop file ''file_path'') (js_prop file ''file_type'')")
     (simp_all add: batch_entry_def Let_def)

lemma batch_loop_all:
  "JNull \<notin> set files \<Longrightarrow>
   \<forall>file \<in> set files. \<forall>s payload. Started s payload \<in> set (file_started file) \<longrightarrow>
      list_ex is_close (w s payload) \<and> \<not> list_ex is_uncaught (w s payload) \<Longrightarrow>
   batch_loop w parse files results actions =
     (Resolved (results @ map (\<lambda>file. the (batch_entry w parse file)) files),
      actions @ concat (map file_actions files))"
proof (induction files arbitrary: results actions)
  case Nil
  then show ?case by simp
next
  case (Cons x xs)
  have "\<forall>s payload. Started s payload \<in> set (file_started x) \<longrightarrow>
          list_ex is_close (w s payload) \<and> \<not> list_ex is_uncaught (w s payload)"
    using Cons.prems(2) by simp
  then obtain entry where e: "batch_entry w parse x = Some entry"
    using batch_entry_settles by blast
  from Cons.prems have x: "x \<noteq> JNull" and xs: "JNull \<notin> set xs"
    and rest: "\<forall>file \<in> set xs. \<forall>s payload. Started s payload \<in> set (file_started file) \<longrightarrow>
      list_ex is_close (w s payload) \<and> \<not> list_ex is_uncaught (w s payload)"
    by auto
  from Cons.IH [OF xs rest, of "results @ [entry]" "actions @ file_actions x"] x e
  show ?case by simp
qed

lemma batch_entry_unsupported:
  assumes "js_prop file ''file_type'' = Some (JStr t)"
    and "toLowerCase t \<notin> set [''audio'', ''video'', ''image'', ''pdf'']"
  shows "batch_entry w parse file =
           Some (JObj (js_object [(''file_path'', js_prop file ''file_path''),
                                  (''file_type'', Some (JStr t)),
                                  (''result'', Some (JObj [(''error'',
                                       JStr (''Unsupported file type: '' @ t))]))]))"
  using assms by (simp add: batch_entry_def batch_item_def batch_switch_def Let_def)

lemma batch_entry_rejected:
  assumes "batch_item w parse (js_prop file ''file_path'') (js_prop file ''file_type'') = Rejected m"
  shows "batch_entry w parse file =
           Some (JObj (js_object [(''file_path'', js_prop file ''file_path''),
                                  (''file_type'', js_prop file ''file_type''),
                                  (''error'', Some (JStr m))]))"
  using assms by (simp add: batch_entry_def Let_def)

lemma started_in_actions:
  "Started s payload \<in> set (concat (map file_actions files)) \<longleftrightarrow>
   Started s payload \<in> set (concat (map file_started files))"
  by (auto simp: file_actions_def)

text \<open>
  Claim C10, as the code has it. For a request whose \<open>files\<close> is a non-empty array
  without \<open>null\<close> elements, when every worker that the handler starts closes and no
  \<open>error\<close> event (of the child or of its stdin) is emitted for it: the files are processed
  one after the other in input order, each worker being started only when the worker of
  the file before it has settled (the handler's actions are, file by file, the start of
  that file's worker followed by its settling, and nothing for a file that needs no
  worker); the orchestrator does not crash; and the handler answers 200 with a results
  array that has exactly one entry per input file, in input order, each being the entry
  of that file alone. A file of unsupported type contributes the "Unsupported file type"
  error object as its result, a file whose analysis rejects contributes an entry with
  the error message, and the files after it are still processed.
\<close>

theorem analyze_batch_one_entry_per_file:
  "js_prop body ''files'' = Some (JArr files) \<and> files \<noteq> [] \<and> JNull \<notin> set files \<and>
   (\<forall>s payload. Started s payload \<in> set (concat (map file_started files)) \<longrightarrow>
      list_ex is_close (w s payload) \<and> \<not> list_ex is_uncaught (w s payload)) \<longrightarrow>
     analyze_batch_actions w parse body = concat (map file_actions files) \<and>
     \<not> analyze_batch_crashes w parse body \<and>
     (\<exists>results.
        analyze_batch_handler w parse body =
          Some (Response 200 (JObj [(''results'', JArr results)])) \<and>
        length results = length files \<and>
        (\<forall>i < length files.
           batch_entry w parse (files ! i) = Some (results ! i) \<and>
           (\<forall>t. js_prop (files ! i) ''file_type'' = Some (JStr t) \<and>
                toLowerCase t \<notin> set [''audio'', ''video'', ''image'', ''pdf''] \<longrightarrow>
                js_prop (results ! i) ''result'' =
                  Some (JObj [(''error'', JStr (''Unsupported file type: '' @ t))])) \<and>
           (\<forall>m. batch_item w parse (js_prop (files ! i) ''file_path'')
                    (js_prop (files ! i) ''file_type'') = Rejected m \<longrightarrow>
                js_prop (results ! i) ''error'' = Some (JStr m))))"
proof (intro impI, elim conjE)
  assume files: "js_prop body ''files'' = Some (JArr files)" "files \<noteq> []" "JNull \<notin> set files"
    and clean: "\<forall>s payload. Started s payload \<in> set (concat (map file_started files)) \<longrightarrow>
      list_ex is_close (w s payload) \<and> \<not> list_ex is_uncaught (w s payload)"
  let ?results = "map (\<lambda>file. the (batch_entry w parse file)) files"
  have each: "\<forall>file \<in> set files. \<forall>s payload. Started s payload \<in> set (file_started file) \<longrightarrow>
      list_ex is_close (w s payload) \<and> \<not> list_ex is_uncaught (w s payload)"
    using clean by auto
  have body: "body \<noteq> JNull" using files(1) by auto
  have loop: "batch_loop w parse files [] [] = (Resolved ?results, concat (map file_actions files))"
    using batch_loop_all [OF files(3) each, of parse "[]" "[]"] by simp
  have acts: "analyze_batch_actions w parse body = concat (map file_actions files)"
    using files(1) loop by (simp add: analyze_batch_actions_def)
  have nocrash_action: "\<not> action_crashes w a" if "a \<in> set (concat (map file_actions files))" for a
  proof (cases a)
    case (Started s payload)
    with that have "Started s payload \<in> set (concat (map file_started files))"
      by (simp only: started_in_actions)
    with clean have "\<not> list_ex is_uncaught (w s payload)" by blast
    with Started show ?thesis by (simp add: orchestrator_crashes_def)
  next
    case Settled
    then show ?thesis by simp
  qed
  have nocrash: "\<not> analyze_batch_crashes w parse body"
    unfolding analyze_batch_crashes_def acts list_ex_iff using nocrash_action by blast
  have resp: "analyze_batch_handler w parse body =
                Some (Response 200 (JObj [(''results'', JArr ?results)]))"
    using body files loop by (simp add: analyze_batch_handler_def)
  have entry: "batch_entry w parse (files ! i) = Some (?results ! i)" if "i < length files" for i
  proof -
    from that have "files ! i \<in> set files" by simp
    with each have "\<forall>s payload. Started s payload \<in> set (file_started (files ! i)) \<longrightarrow>
        list_ex is_close (w s payload) \<and> \<not> list_ex is_uncaught (w s payload)"
      by blast
    then obtain e where "batch_entry w parse (files ! i) = Some e"
      using batch_entry_settles by blast
    with that show ?thesis by simp
  qed
  have unsup: "js_prop (?results ! i) ''result'' =
                  Some (JObj [(''error'', JStr (''Unsupported file type: '' @ t))])"
    if "i < length files" "js_prop (files ! i) ''file_type'' = Some (JStr t)"
      "toLowerCase t \<notin> set [''audio'', ''video'', ''image'', ''pdf'']" for i t
  proof -
    have "Some (?results ! i) = batch_entry w parse (files ! i)"
      using entry [OF that(1)] by simp
    also note batch_entry_unsupported [OF that(2,3)]
    finally show ?thesis
      by (cases "js_prop (files ! i) ''file_path''") auto
  qed
  have rej: "js_prop (?results ! i) ''error'' = Some (JStr m)"
    if "i < length files"
      "batch_item w parse (js_prop (files ! i) ''file_path'')
         (js_prop (files ! i) ''file_type'') = Rejected m" for i m
  proof -
    have "Some (?results ! i) = batch_entry w parse (files ! i)"
      using entry [OF that(1)] by simp
    also note batch_entry_rejected [OF that(2)]
    finally show ?thesis
      by (cases "js_prop (files ! i) ''file_path''"; cases "js_prop (files ! i) ''file_type''") auto
  qed
  have results: "\<exists>results.
        analyze_batch_handler w parse body =
          Some (Response 200 (JObj [(''results'', JArr results)])) \<and>
        length results = length files \<and>
        (\<forall>i < length files.
           batch_entry w parse (files ! i) = Some (results ! i) \<and>
           (\<forall>t. js_prop (files ! i) ''file_type'' = Some (JStr t) \<and>
                toLowerCase t \<notin> set [''audio'', ''video'', ''image'', ''pdf''] \<longrightarrow>
                js_prop (results ! i) ''result'' =
                  Some (JObj [(''error'', JStr (''Unsupported file type: '' @ t))])) \<and>
           (\<forall>m. batch_item w parse (js_prop (files ! i) ''file_path'')
                    (js_prop (files ! i) ''file_type'') = Rejected m \<longrightarrow>
                js_prop (results ! i) ''error'' = Some (JStr m)))"
    using resp entry unsup rej
    by (intro exI [of _ ?results]) auto
  from acts nocrash results
  show "analyze_batch_actions w parse body = concat (map file_actions files) \<and>
     \<not> analyze_batch_crashes w parse body \<and>
     (\<exists>results.
        analyze_batch_handler w parse body =
          Some (Response 200 (JObj [(''results'', JArr results)])) \<and>
        length results = length files \<and>
        (\<forall>i < length files.
           batch_entry w parse (files ! i) = Some (results ! i) \<and>
           (\<forall>t. js_prop (files ! i) ''file_type'' = Some (JStr t) \<and>
                toLowerCase t \<notin> set [''audio'', ''video'', ''image'', ''pdf''] \<longrightarrow>
                js_prop (results ! i) ''result'' =
                  Some (JObj [(''error'', JStr (''Unsupported file type: '' @ t))])) \<and>
           (\<forall>m. batch_item w parse (js_prop (files ! i) ''file_path'')
                    (js_prop (files ! i) ''file_type'') = Rejected m \<longrightarrow>
                js_prop (results ! i) ''error'' = Some (JStr m))))"
    by (intro conjI)
qed

lemma python_world_clean:
  assumes "stdin_fits env payload"
  shows "list_ex is_close (python_world env db s payload)"
    and "\<not> list_ex is_uncaught (python_world env db s payload)"
  using assms by (simp_all add: python_world_def stdin_events_def events_of_def)

lemma example_world_clean:
  "list_ex is_close (python_world (example_env table files details) db s payload)"
  "\<not> list_ex is_uncaught (python_world (example_env table files details) db s payload)"
  by (rule python_world_clean, simp add: example_env_def)+

lemma lowered_types:
  "toLowerCase ''Audio'' = ''audio''" "toLowerCase ''pdf'' = ''pdf''"
  "toLowerCase ''docx'' = ''docx''" "toLowerCase ''audio'' = ''audio''"
  by (simp_all add: toLowerCase_def lower_char_def)

lemma batch_switches:
  "batch_switch (Some (JStr ''/tmp/missing.wav'')) (Some (JStr ''Audio'')) =
     CallAdapter AnalyzeAudio (JObj [(''audio_file_path'', JStr ''/tmp/missing.wav'')])"
  "batch_switch (Some (JStr ''/tmp/notes.docx'')) (Some (JStr ''docx'')) =
     Value (JObj [(''error'', JStr ''Unsupported file type: docx'')])"
  "batch_switch (Some (JStr ''/tmp/scan.png'')) None =
     Throw ''Cannot read properties of undefined (reading 'toLowerCase')''"
  "batch_switch (Some (JStr ''/tmp/missing.pdf'')) (Some (JStr ''pdf'')) =
     CallAdapter AnalyzePdf (JObj [(''pdf_file_path'', JStr ''/tmp/missing.pdf'')])"
  "batch_switch (Some (JStr ''/tmp/call.wav'')) (Some (JStr ''audio'')) =
     CallAdapter AnalyzeAudio (JObj [(''audio_file_path'', JStr ''/tmp/call.wav'')])"
  by (simp_all add: batch_switch_def lowered_types)

lemma missing_files_resolved:
  "analyzeAudioFile (python_world (example_env not_found_table [] JNull) example_db)
       (parse_excerpt not_found_table) (JObj [(''audio_file_path'', JStr ''/tmp/missing.wav'')]) =
     Resolved (JObj [(''error'', JStr ''Audio file not found'')])"
  "analyzePdfFile (python_world (example_env not_found_table [] JNull) example_db)
       (parse_excerpt not_found_table) (JObj [(''pdf_file_path'', JStr ''/tmp/missing.pdf'')]) =
     Resolved (JObj [(''error'', JStr ''PDF file not found'')])"
proof -
  let ?env = "example_env not_found_table [] JNull"
  have a: "fst (run_script ?env example_db AnalyzeAudio
                  (JObj [(''audio_file_path'', JStr ''/tmp/missing.wav'')]) []) =
           Inr (JObj [(''error'', JStr ''Audio file not found'')])"
    by (simp add: audio_nf example_env_def)
  have p: "fst (run_script ?env example_db AnalyzePdf
                  (JObj [(''pdf_file_path'', JStr ''/tmp/missing.pdf'')]) []) =
           Inr (JObj [(''error'', JStr ''PDF file not found'')])"
    by (simp add: pdf_nf example_env_def)
  show "analyzeAudioFile (python_world ?env example_db)
       (parse_excerpt not_found_table) (JObj [(''audio_file_path'', JStr ''/tmp/missing.wav'')]) =
     Resolved (JObj [(''error'', JStr ''Audio file not found'')])"
    using python_world_resolved [OF a not_found_roundtrips(1)]
    by (simp add: analyzeAudioFile_def rethrow_simps)
  show "analyzePdfFile (python_world ?env example_db)
       (parse_excerpt not_found_table) (JObj [(''pdf_file_path'', JStr ''/tmp/missing.pdf'')]) =
     Resolved (JObj [(''error'', JStr ''PDF file not found'')])"
    using python_world_resolved [OF p not_found_roundtrips(2)]
    by (simp add: analyzePdfFile_def rethrow_simps)
qed

lemma batch_files_response:
  "analyze_batch_handler (python_world (example_env not_found_table [] JNull) example_db)
       (parse_excerpt not_found_table) (JObj [(''files'', JArr batch_files)]) =
     Some (Response 200 (JObj [(''results'', JArr
       [JObj [(''file_path'', JStr ''/tmp/missing.wav''), (''file_type'', JStr ''Audio''),
              (''result'', JObj [(''error'', JStr ''Audio file not found'')])],
        JObj [(''file_path'', JStr ''/tmp/notes.docx''), (''file_type'', JStr ''docx''),
              (''result'', JObj [(''error'', JStr ''Unsupported file type: docx'')])],
        JObj [(''file_path'', JStr ''/tmp/scan.png''),
              (''error'', JStr ''Cannot read properties of undefined (reading 'toLowerCase')'')],
        JObj [(''file_path'', JStr ''/tmp/missing.pdf''), (''file_type'', JStr ''pdf''),
              (''result'', JObj [(''error'', JStr ''PDF file not found'')])]])]))"
  by (simp add: analyze_batch_handler_def batch_files_def batch_entry_def batch_item_def
      batch_switches missing_files_resolved file_actions_def file_started_def)

lemma batch_files_actions:
  "concat (map file_actions batch_files) =
     [Started AnalyzeAudio (JObj [(''audio_file_path'', JStr ''/tmp/missing.wav'')]), Settled,
      Started AnalyzePdf (JObj [(''pdf_file_path'', JStr ''/tmp/missing.pdf'')]), Settled]"
  by (simp add: batch_files_def file_actions_def file_started_def batch_switches)

theorem analyze_batch_one_entry_per_file_witness:
  "js_prop (JObj [(''files'', JArr batch_files)]) ''files'' = Some (JArr batch_files) \<and>
   batch_files \<noteq> [] \<and> JNull \<notin> set batch_files \<and>
   (\<forall>s payload. list_ex is_close
      (python_world (example_env not_found_table [] JNull) example_db s payload)) \<and>
   (\<forall>s payload. \<not> list_ex is_uncaught
      (python_world (example_env not_found_table [] JNull) example_db s payload)) \<and>
   analyze_batch_actions (python_world (example_env not_found_table [] JNull) example_db)
       (parse_excerpt not_found_table) (JObj [(''files'', JArr batch_files)]) =
     [Started AnalyzeAudio (JObj [(''audio_file_path'', JStr ''/tmp/missing.wav'')]), Settled,
      Started AnalyzePdf (JObj [(''pdf_file_path'', JStr ''/tmp/missing.pdf'')]), Settled] \<and>
   \<not> analyze_batch_crashes (python_world (example_env not_found_table [] JNull) example_db)
       (parse_excerpt not_found_table) (JObj [(''files'', JArr batch_files)]) \<and>
   (\<exists>results.
      analyze_batch_handler (python_world (example_env not_found_table [] JNull) example_db)
          (parse_excerpt not_found_table) (JObj [(''files'', JArr batch_files)]) =
        Some (Response 200 (JObj [(''results'', JArr results)])) \<and>
      length results = 4 \<and>
      js_prop (results ! 1) ''result'' =
        Some (JObj [(''error'', JStr ''Unsupported file type: docx'')]) \<and>
      js_prop (results ! 3) ''result'' =
        Some (JObj [(''error'', JStr ''PDF file not found'')]))"
proof -
  let ?w = "python_world (example_env not_found_table [] JNull) example_db"
  let ?body = "JObj [(''files'', JArr batch_files)]"
  have closes: "\<forall>s payload. list_ex is_close (?w s payload)"
    and clean: "\<forall>s payload. \<not> list_ex is_uncaught (?w s payload)"
    by (simp_all add: example_world_clean)
  have hyp: "js_prop ?body ''files'' = Some (JArr batch_files) \<and>
     batch_files \<noteq> [] \<and> JNull \<notin> set batch_files \<and>
     (\<forall>s payload. Started s payload \<in> set (concat (map file_started batch_files)) \<longrightarrow>
        list_ex is_close (?w s payload) \<and> \<not> list_ex is_uncaught (?w s payload))"
    using closes clean by (simp add: batch_files_def)
  have len: "length batch_files = 4" by (simp add: batch_files_def)
  have second: "js_prop (batch_files ! 1) ''file_type'' = Some (JStr ''docx'') \<and>
      toLowerCase ''docx'' \<notin> set [''audio'', ''video'', ''image'', ''pdf'']"
    by (simp add: batch_files_def lowered_types)
  note t = analyze_batch_one_entry_per_file
         [of ?body batch_files ?w "parse_excerpt not_found_table", THEN mp, OF hyp]
  from t have acts: "analyze_batch_actions ?w (parse_excerpt not_found_table) ?body =
      concat (map file_actions batch_files)"
    and nocrash: "\<not> analyze_batch_crashes ?w (parse_excerpt not_found_table) ?body"
    by blast+
  from t obtain results where r:
    "analyze_batch_handler ?w (parse_excerpt not_found_table) ?body =
       Some (Response 200 (JObj [(''results'', JArr results)]))"
    "length results = length batch_files"
    "\<forall>i < length batch_files.
       batch_entry ?w (parse_excerpt not_found_table) (batch_files ! i) = Some (results ! i) \<and>
       (\<forall>t. js_prop (batch_files ! i) ''file_type'' = Some (JStr t) \<and>
            toLowerCase t \<notin> set [''audio'', ''video'', ''image'', ''pdf''] \<longrightarrow>
            js_prop (results ! i) ''result'' =
              Some (JObj [(''error'', JStr (''Unsupported file type: '' @ t))])) \<and>
       (\<forall>m. batch_item ?w (parse_excerpt not_found_table) (js_prop (batch_files ! i) ''file_path'')
                (js_prop (batch_files ! i) ''file_type'') = Rejected m \<longrightarrow>
            js_prop (results ! i) ''error'' = Some (JStr m))"
    by blast
  have one: "(1::nat) < length batch_files"
    using len by simp
  from r(3) one second
  have "js_prop (results ! 1) ''result'' =
          Some (JObj [(''error'', JStr (''Unsupported file type: '' @ ''docx''))])"
    by blast
  then have docx: "js_prop (results ! 1) ''result'' =
          Some (JObj [(''error'', JStr ''Unsupported file type: docx'')])"
    by simp
  have pdf: "js_prop (results ! 3) ''result'' = Some (JObj [(''error'', JStr ''PDF file not found'')])"
    using r(1) by (auto simp: batch_files_response)
  have a: "analyze_batch_actions ?w (parse_excerpt not_found_table) ?body =
     [Started AnalyzeAudio (JObj [(''audio_file_path'', JStr ''/tmp/missing.wav'')]), Settled,
      Started AnalyzePdf (JObj [(''pdf_file_path'', JStr ''/tmp/missing.pdf'')]), Settled]"
    using acts by (simp only: batch_files_actions)
  have res: "\<exists>results.
      analyze_batch_handler ?w (parse_excerpt not_found_table) ?body =
        Some (Response 200 (JObj [(''results'', JArr results)])) \<and>
      length results = 4 \<and>
      js_prop (results ! 1) ''result'' =
        Some (JObj [(''error'', JStr ''Unsupported file type: docx'')]) \<and>
      js_prop (results ! 3) ''result'' =
        Some (JObj [(''error'', JStr ''PDF file not found'')])"
    using r(1,2) len docx pdf by (intro exI [of _ results]) simp
  have h: "js_prop ?body ''files'' = Some (JArr batch_files)" "batch_files \<noteq> []"
    "JNull \<notin> set batch_files"
    using hyp by blast+
  from h closes clean a nocrash res show ?thesis by (intro conjI)
qed

text \<open>
  Claim C10 as stated for every files array fails: an empty array is answered with 400
  and no results array (the handler's guard); a worker that dies at its import lines
  before reading a payload larger than the pipe buffer makes the write to its stdin
  fail, which no listener handles, so the orchestrator ends and no response is sent; a
  worker that never closes leaves the request without a response; and a \<open>null\<close> element
  ends the whole request with 500, the results of the files before it included.
\<close>

theorem analyze_batch_empty_or_null_counterexample:
  "analyze_batch_handler (python_world (example_env not_found_table [] JNull) example_db)
       (parse_excerpt not_found_table) (JObj [(''files'', JArr [])]) =
     Some (Response 400 (JObj [(''message'', JStr ''files array is required'')])) \<and>
   analyze_batch_crashes (python_world broken_env example_db) (parse_excerpt [])
       (JObj [(''files'', JArr [JObj [(''file_path'', JStr ''/tmp/call.wav''),
                                      (''file_type'', JStr ''audio'')]])]) \<and>
   analyze_batch_handler (python_world broken_env example_db) (parse_excerpt [])
       (JObj [(''files'', JArr [JObj [(''file_path'', JStr ''/tmp/call.wav''),
                                      (''file_type'', JStr ''audio'')]])]) = None \<and>
   analyze_batch_handler silent_world (parse_excerpt [])
       (JObj [(''files'', JArr [JObj [(''file_path'', JStr ''/tmp/call.wav''),
                                      (''file_type'', JStr ''audio'')]])]) = None \<and>
   analyze_batch_handler (python_world (example_env not_found_table [] JNull) example_db)
       (parse_excerpt not_found_table)
       (JObj [(''files'', JArr [JObj [(''file_path'', JStr ''/tmp/notes.docx''),
                                      (''file_type'', JStr ''docx'')], JNull])]) =
     Some (Response 500 (JObj [(''message'',
       JStr ''Cannot destructure property 'file_path' of 'file' as it is null.'')]))"
proof -
  let ?call = "JObj [(''audio_file_path'', JStr ''/tmp/call.wav'')]"
  have imp: "\<not> imports_ok broken_env" and fits: "\<not> stdin_fits broken_env payload" for payload
    by (simp_all add: broken_env_def example_env_def)
  have run: "fst (run_script broken_env example_db AnalyzeAudio ?call []) = Inl ''ImportError''"
    using imp by (rule run_script_import_failure)
  have w: "python_world broken_env example_db AnalyzeAudio ?call =
           [StdinError ''write EPIPE'', StdoutData [], StderrData ''ImportError'', Close (Some 1)]"
    unfolding python_world_def run
    using imp fits by (simp add: stdin_events_def reads_stdin_def py_finish_def events_of_def)
  have pending: "analyzeAudioFile (python_world broken_env example_db) (parse_excerpt []) ?call =
                   Pending"
    by (simp add: analyzeAudioFile_def w delivered_def runPythonInline_def listener_init_def
        rethrow_simps)
  have never: "analyzeAudioFile silent_world (parse_excerpt []) ?call = Pending"
    by (simp add: analyzeAudioFile_def silent_world_def delivered_def runPythonInline_def
        listener_init_def rethrow_simps)
  have empty: "analyze_batch_handler (python_world (example_env not_found_table [] JNull) example_db)
       (parse_excerpt not_found_table) (JObj [(''files'', JArr [])]) =
     Some (Response 400 (JObj [(''message'', JStr ''files array is required'')]))"
    by (simp add: analyze_batch_handler_def)
  have crash: "analyze_batch_crashes (python_world broken_env example_db) (parse_excerpt [])
       (JObj [(''files'', JArr [JObj [(''file_path'', JStr ''/tmp/call.wav''),
                                      (''file_type'', JStr ''audio'')]])])"
    by (simp add: analyze_batch_crashes_def analyze_batch_actions_def batch_entry_def
        batch_item_def batch_switches pending file_started_def orchestrator_crashes_def w)
  have none: "analyze_batch_handler (python_world broken_env example_db) (parse_excerpt [])
       (JObj [(''files'', JArr [JObj [(''file_path'', JStr ''/tmp/call.wav''),
                                      (''file_type'', JStr ''audio'')]])]) = None"
    by (simp add: analyze_batch_handler_def batch_entry_def batch_item_def batch_switches
        pending file_started_def)
  have hang: "analyze_batch_handler silent_world (parse_excerpt [])
       (JObj [(''files'', JArr [JObj [(''file_path'', JStr ''/tmp/call.wav''),
                                      (''file_type'', JStr ''audio'')]])]) = None"
    by (simp add: analyze_batch_handler_def batch_entry_def batch_item_def batch_switches
        never file_started_def)
  have null: "analyze_batch_handler (python_world (example_env not_found_table [] JNull) example_db)
       (parse_excerpt not_found_table)
       (JObj [(''files'', JArr [JObj [(''file_path'', JStr ''/tmp/notes.docx''),
                                      (''file_type'', JStr ''docx'')], JNull])]) =
     Some (Response 500 (JObj [(''message'',
       JStr ''Cannot destructure property 'file_path' of 'file' as it is null.'')]))"
    by (simp add: analyze_batch_handler_def batch_entry_def batch_item_def batch_switches
        file_actions_def file_started_def destructure_message_def quoted_def)
  from empty crash none hang null show ?thesis by (intro conjI)
qed

end
